(* ===== verification/Prelude.thy ===== *)
theory Prelude
  imports Main "HOL-Library.Word" "HOL-Library.Option_ord" "HOL-Library.Multiset"
begin

text \<open>
  Shared vocabulary of the playlist development: the types of the values the
  three programs (\<open>src/server.js\<close>, \<open>src/worker.js\<close>, \<open>src/client/src/App.js\<close>)
  exchange, the collection \<open>store_simps\<close> of the characteristic equations of the
  store operations, and generic lemmas on lists, sorting and strings that the
  component theories share.
\<close>

section \<open>Types\<close>

text \<open>
  A file's content is the byte buffer that multer (\<open>req.file.buffer\<close>) or the
  Fetch API (\<open>file.arrayBuffer()\<close>) hands to the WebDAV client: a list of bytes.
  Paths and titles are JavaScript strings; percent-encoding of URLs is not
  modelled, so a path is the character list the handlers see.
\<close>

type_synonym byte = "8 word"
type_synonym bytes = "byte list"
type_synonym fpath = string

named_theorems store_simps "characteristic equations of the store operations"

section \<open>Sorting\<close>

text \<open>
  \<open>ORDER BY\<close> is modelled by the library's stable \<open>sort_key\<close>. Appending an
  element whose key is at least every other key appends it to the sorted list.
\<close>

lemma sort_key_snoc_greatest:
  assumes "\<forall>y\<in>set xs. f y \<le> f x"
  shows "sort_key f (xs @ [x]) = sort_key f xs @ [x]"
proof (rule properties_for_sort_key)
  show "mset (sort_key f xs @ [x]) = mset (xs @ [x])" by simp
next
  fix k assume "k \<in> set (sort_key f xs @ [x])"
  show "filter (\<lambda>y. f k = f y) (sort_key f xs @ [x]) = filter (\<lambda>y. f k = f y) (xs @ [x])"
    using sort_key_stable [of f "f k" xs] by (simp add: eq_commute [of "f k"])
next
  have "sorted (map f (sort_key f xs))" by simp
  with assms show "sorted (map f (sort_key f xs @ [x]))"
    by (simp add: sorted_append)
qed

section \<open>Keys\<close>

text \<open>Selecting by a key that is unique in the list finds exactly one element.\<close>

lemma filter_unique_key:
  "distinct (map f xs) \<Longrightarrow> x \<in> set xs \<Longrightarrow> filter (\<lambda>y. f y = f x) xs = [x]"
proof (induction xs)
  case Nil then show ?case by simp
next
  case (Cons a xs)
  show ?case
  proof (cases "x = a")
    case True
    with Cons.prems(1) have "\<forall>y\<in>set xs. f y \<noteq> f x" by (auto simp: image_iff)
    with True show ?thesis by (simp add: filter_empty_conv)
  next
    case False
    with Cons.prems have "f a \<noteq> f x" by (auto intro: rev_image_eqI)
    with False Cons show ?thesis by simp
  qed
qed

end
