(* ===== verification/MetaStore.thy ===== *)
theory MetaStore
  imports Prelude
begin

text \<open>
  The metadata store: the relational table \<open>playlist(id, title, path, position)\<close>
  that \<open>src/server.js\<close> reaches through a mysql2 pool and \<open>src/worker.js\<close> through
  the D1 binding \<open>env.DB\<close>. The repository holds no schema; the table is modelled by
  the four SQL statements the handlers send (server.js lines 45, 56, 59, 79;
  worker.js lines 32, 43, 47, 76), with SQL \<open>NULL\<close> as \<open>None\<close>.
  The rows are kept in insertion order with the auto-increment counter that
  assigns \<open>id\<close>; \<open>meta_wf\<close> is the invariant that ids are unique, ascending and
  below the counter, and every statement keeps it.
\<close>

section \<open>State\<close>

record row =
  row_id :: nat
  title :: "string option"
  path :: "string option"
  position :: "int option"

record meta_store =
  rows :: "row list"
  next_id :: nat

definition empty_meta :: meta_store where
  "empty_meta = \<lparr>rows = [], next_id = 1\<rparr>"

section \<open>Statements\<close>

text \<open>\<open>SELECT * FROM playlist ORDER BY position\<close>: ascending, \<open>NULL\<close> first (as in
  MySQL and SQLite), rows of equal position in insertion order.\<close>

definition select_ordered :: "meta_store \<Rightarrow> row list" where
  "select_ordered m = sort_key position (rows m)"

text \<open>\<open>SELECT MAX(position) as maxPos FROM playlist\<close>: \<open>NULL\<close> on a table with no
  non-\<open>NULL\<close> position, the aggregate ignoring \<open>NULL\<close>s otherwise.\<close>

fun max_position :: "row list \<Rightarrow> int option" where
  "max_position [] = None"
| "max_position (r # rs) =
     (case position r of
        None \<Rightarrow> max_position rs
      | Some p \<Rightarrow> (case max_position rs of None \<Rightarrow> Some p | Some q \<Rightarrow> Some (max p q)))"

text \<open>\<open>INSERT INTO playlist (title, path, position) VALUES (?, ?, ?)\<close>: the new row
  gets the next auto-increment id, which is returned as \<open>insertId\<close>
  (\<open>meta.last_row_id\<close> on D1).\<close>

definition insert_row ::
  "string option \<Rightarrow> string option \<Rightarrow> int option \<Rightarrow> meta_store \<Rightarrow> nat \<times> meta_store" where
  "insert_row t p q m =
     (next_id m,
      m\<lparr>rows := rows m @ [\<lparr>row_id = next_id m, title = t, path = p, position = q\<rparr>],
        next_id := Suc (next_id m)\<rparr>)"

text \<open>\<open>SELECT * FROM playlist WHERE id = ?\<close>.\<close>

definition select_by_id :: "nat \<Rightarrow> meta_store \<Rightarrow> row list" where
  "select_by_id i m = filter (\<lambda>r. row_id r = i) (rows m)"

section \<open>Invariant\<close>

definition meta_wf :: "meta_store \<Rightarrow> bool" where
  "meta_wf m \<longleftrightarrow>
     sorted_wrt (<) (map row_id (rows m)) \<and> (\<forall>r\<in>set (rows m). row_id r < next_id m)"

lemma meta_wf_empty [simp]: "meta_wf empty_meta"
  by (simp add: meta_wf_def empty_meta_def)

lemma insert_row_id [store_simps]: "fst (insert_row t p q m) = next_id m"
  by (simp add: insert_row_def)

lemma insert_row_rows [store_simps]:
  "rows (snd (insert_row t p q m)) =
     rows m @ [\<lparr>row_id = next_id m, title = t, path = p, position = q\<rparr>]"
  by (simp add: insert_row_def)

lemma insert_row_next_id [store_simps]:
  "next_id (snd (insert_row t p q m)) = Suc (next_id m)"
  by (simp add: insert_row_def)

lemma meta_wf_insert_row:
  assumes "meta_wf m"
  shows "meta_wf (snd (insert_row t p q m))"
proof -
  have "\<forall>r\<in>set (rows m). row_id r < next_id m"
    using assms by (simp add: meta_wf_def)
  with assms show ?thesis
    by (auto simp: meta_wf_def store_simps sorted_wrt_append)
qed

text \<open>In a well-formed store a present id selects exactly its row.\<close>

lemma select_by_id_present:
  assumes "meta_wf m" and "r \<in> set (rows m)"
  shows "select_by_id (row_id r) m = [r]"
proof -
  have "distinct (map row_id (rows m))"
    using assms(1) by (simp add: meta_wf_def strict_sorted_iff)
  then show ?thesis
    using assms(2) by (simp add: select_by_id_def filter_unique_key)
qed

lemma select_by_id_insert_row:
  assumes "meta_wf m"
  shows "select_by_id (fst (insert_row t p q m)) (snd (insert_row t p q m)) =
           [\<lparr>row_id = next_id m, title = t, path = p, position = q\<rparr>]"
proof -
  let ?r = "\<lparr>row_id = next_id m, title = t, path = p, position = q\<rparr>"
  have "meta_wf (snd (insert_row t p q m))" using assms by (rule meta_wf_insert_row)
  moreover have "?r \<in> set (rows (snd (insert_row t p q m)))" by (simp add: store_simps)
  ultimately have "select_by_id (row_id ?r) (snd (insert_row t p q m)) = [?r]"
    by (rule select_by_id_present)
  then show ?thesis by (simp add: store_simps)
qed

section \<open>MAX and ORDER BY\<close>

text \<open>\<open>MAX\<close> ignoring \<open>NULL\<close>s is the greatest position in the order that puts
  \<open>NULL\<close> below every value.\<close>

lemma max_position_Max:
  "max_position rs = (if rs = [] then None else Max (position ` set rs))"
proof (induction rs)
  case Nil then show ?case by simp
next
  case (Cons r rs)
  then show ?case
    by (cases "rs = []") (auto simp: max_def split: option.splits)
qed

lemma max_position_upper:
  "r \<in> set rs \<Longrightarrow> position r \<le> max_position rs"
  by (auto simp: max_position_Max)

lemma select_ordered_sorted: "sorted (map position (select_ordered m))"
  by (simp add: select_ordered_def)

lemma mset_select_ordered: "mset (select_ordered m) = mset (rows m)"
  by (simp add: select_ordered_def)

text \<open>A row whose position is at least every stored position is listed last.\<close>

lemma select_ordered_insert_greatest:
  assumes "\<forall>r\<in>set (rows m). position r \<le> q"
  shows "select_ordered (snd (insert_row t p q m)) =
           select_ordered m @ [\<lparr>row_id = next_id m, title = t, path = p, position = q\<rparr>]"
  using assms by (simp add: select_ordered_def store_simps sort_key_snoc_greatest)

end
