(* ===== verification/BlobStore.thy ===== *)
theory BlobStore
  imports Prelude
begin

text \<open>
  The blob store: the WebDAV share both hosts reach through the \<open>webdav\<close> client
  (\<open>createClient\<close>, server.js line 37, worker.js line 23). The programs call two of
  its operations: \<open>putFileContents(path, buffer)\<close> (server.js line 76, worker.js
  line 72), which stores or overwrites a file, and \<open>createReadStream(path)\<close>
  (server.js line 98, worker.js line 98), which returns a stream at once and
  reports a missing file only later, as an error event of the stream, outside the
  caller's \<open>try\<close> block. The share is a map from paths to contents; paths are
  compared as strings.
\<close>

type_synonym blob_store = "fpath \<rightharpoonup> bytes"

datatype read_stream = StreamData bytes | StreamError

definition put_file_contents :: "fpath \<Rightarrow> bytes \<Rightarrow> blob_store \<Rightarrow> blob_store" where
  "put_file_contents p c b = b(p \<mapsto> c)"

definition create_read_stream :: "blob_store \<Rightarrow> fpath \<Rightarrow> read_stream" where
  "create_read_stream b p = (case b p of Some c \<Rightarrow> StreamData c | None \<Rightarrow> StreamError)"

lemma read_put_same [store_simps]:
  "create_read_stream (put_file_contents p c b) p = StreamData c"
  by (simp add: create_read_stream_def put_file_contents_def)

lemma read_put_other [store_simps]:
  "q \<noteq> p \<Longrightarrow> create_read_stream (put_file_contents p c b) q = create_read_stream b q"
  by (simp add: create_read_stream_def put_file_contents_def)

lemma dom_put_file_contents [store_simps]:
  "dom (put_file_contents p c b) = insert p (dom b)"
  by (simp add: put_file_contents_def)

lemma create_read_stream_error_iff:
  "create_read_stream b p = StreamError \<longleftrightarrow> p \<notin> dom b"
  by (auto simp: create_read_stream_def split: option.splits)

end
