(* ===== verification/Url.thy ===== *)
theory Url
  imports Prelude
begin

text \<open>
  The two URL transformations a track request goes through. The client builds
  the track URL as a template string, \<open>`${API_URL}/api/track/${track.path}`\<close>
  (App.js line 68). The browser's URL parser (WHATWG URL standard) turns it into
  the request's pathname: it strips trailing C0 controls and spaces, removes
  tabs and newlines, ends the path at \<open>?\<close> or \<open>#\<close>, turns a backslash into \<open>/\<close> for an
  \<open>https\<close> URL, and percent-encodes the bytes of the path percent-encode set. The
  worker reads \<open>url.pathname\<close> as it is (worker.js line 12). Express matches routes
  on the encoded path and decodes a route parameter with \<open>decodeURIComponent\<close>; a
  malformed escape makes \<open>decode_param\<close> fail with status 400.
  Characters are bytes, so a non-ASCII name is its UTF-8 bytes. The model does
  not check UTF-8 validity in \<open>decodeURIComponent\<close>, and it does not normalise the
  dot segments that a backslash in a file name can create.
\<close>

section \<open>Character classes\<close>

definition tab_or_newline :: "char \<Rightarrow> bool" where
  "tab_or_newline c = (c = CHR 0x09 \<or> c = CHR 0x0A \<or> c = CHR 0x0D)"

definition c0_or_space :: "char \<Rightarrow> bool" where
  "c0_or_space c = (of_char c \<le> (32::nat))"

text \<open>The path percent-encode set: C0 controls, bytes above \<open>~\<close>, and
  space \<open>" # < > ? ^ ` { }\<close>.\<close>

definition path_encode_set :: "char \<Rightarrow> bool" where
  "path_encode_set c =
     (of_char c < (32::nat) \<or> 126 < (of_char c :: nat) \<or>
      c \<in> set [CHR 0x20, CHR 0x22, CHR 0x23, CHR 0x3C, CHR 0x3E, CHR 0x3F, CHR 0x5E, CHR 0x60,
                 CHR 0x7B, CHR 0x7D])"

definition hex_digit :: "nat \<Rightarrow> char" where
  "hex_digit d = (if d < 10 then char_of (48 + d) else char_of (55 + d))"

definition hex_val :: "char \<Rightarrow> nat option" where
  "hex_val c =
     (let n = of_char c :: nat in
      if 48 \<le> n \<and> n \<le> 57 then Some (n - 48)
      else if 65 \<le> n \<and> n \<le> 70 then Some (n - 55)
      else if 97 \<le> n \<and> n \<le> 102 then Some (n - 87)
      else None)"

section \<open>The browser's URL parser\<close>

definition percent_encode_char :: "char \<Rightarrow> string" where
  "percent_encode_char c =
     (if path_encode_set c
      then [CHR ''%'', hex_digit (of_char c div 16), hex_digit (of_char c mod 16)]
      else [c])"

text \<open>The pathname of an \<open>https\<close> URL whose path is the given string.\<close>

definition url_pathname :: "string \<Rightarrow> string" where
  "url_pathname s =
     concat (map (percent_encode_char \<circ> (\<lambda>c. if c = CHR 0x5C then CHR ''/'' else c))
       (takeWhile (\<lambda>c. c \<noteq> CHR ''?'' \<and> c \<noteq> CHR ''#'')
         (filter (\<lambda>c. \<not> tab_or_newline c) (rev (dropWhile c0_or_space (rev s))))))"

section \<open>decodeURIComponent\<close>

text \<open>\<open>None\<close> is the \<open>URIError\<close> of a \<open>%\<close> not followed by two hex digits.\<close>

fun percent_decode :: "string \<Rightarrow> string option" where
  "percent_decode [] = Some []"
| "percent_decode [c] = (if c = CHR ''%'' then None else Some [c])"
| "percent_decode [c, d] = (if c = CHR ''%'' then None else map_option (Cons c) (percent_decode [d]))"
| "percent_decode (c # a # b # rest) =
     (if c = CHR ''%'' then
        (case (hex_val a, hex_val b) of
           (Some x, Some y) \<Rightarrow> map_option (Cons (char_of (16 * x + y))) (percent_decode rest)
         | _ \<Rightarrow> None)
      else map_option (Cons c) (percent_decode (a # b # rest)))"

text \<open>A character both transformations leave alone.\<close>

definition url_plain :: "char \<Rightarrow> bool" where
  "url_plain c =
     (\<not> path_encode_set c \<and> \<not> tab_or_newline c \<and> c \<noteq> CHR 0x5C \<and> c \<noteq> CHR ''%'')"

section \<open>Lemmas\<close>

lemma c0_or_space_encoded: "c0_or_space c \<Longrightarrow> path_encode_set c"
proof -
  assume "c0_or_space c"
  then have "of_char c < (32::nat) \<or> of_char c = (32::nat)" by (auto simp: c0_or_space_def)
  then show ?thesis
  proof
    assume "of_char c = (32::nat)"
    then have "c = char_of (32::nat)" by (metis char_of_char)
    then show ?thesis by (simp add: path_encode_set_def char_of_def bit_0)
  qed (simp add: path_encode_set_def)
qed

lemma percent_encode_plain [simp]: "url_plain c \<Longrightarrow> percent_encode_char c = [c]"
  by (simp add: url_plain_def percent_encode_char_def)

lemma strip_trailing_append:
  "rev (dropWhile P (rev (a @ b))) =
     (if \<forall>x\<in>set b. P x then rev (dropWhile P (rev a)) else a @ rev (dropWhile P (rev b)))"
  by (induction b rule: rev_induct) auto

lemma strip_trailing_keep: "\<forall>x\<in>set a. \<not> P x \<Longrightarrow> rev (dropWhile P (rev a)) = a"
  by (induction a rule: rev_induct) auto

lemma plain_not_c0: "url_plain c \<Longrightarrow> \<not> c0_or_space c"
  using c0_or_space_encoded by (auto simp: url_plain_def)

lemma encode_plain_list:
  "\<forall>x\<in>set a. url_plain x \<Longrightarrow>
   concat (map (percent_encode_char \<circ> (\<lambda>c. if c = CHR 0x5C then CHR ''/'' else c)) a) = a"
  by (induction a) (auto simp: url_plain_def)

lemma url_pathname_plain_append:
  assumes "list_all url_plain a"
  shows "url_pathname (a @ b) = a @ url_pathname b"
proof -
  have pa: "\<forall>x\<in>set a. url_plain x" using assms by (simp add: list_all_iff)
  have sa: "rev (dropWhile c0_or_space (rev a)) = a" using pa by (simp add: strip_trailing_keep plain_not_c0)
  have fa: "filter (\<lambda>c. \<not> tab_or_newline c) a = a" using pa by (auto simp: url_plain_def)
  have ta: "takeWhile (\<lambda>c. c \<noteq> CHR ''?'' \<and> c \<noteq> CHR ''#'') (a @ ys) = a @ takeWhile (\<lambda>c. c \<noteq> CHR ''?'' \<and> c \<noteq> CHR ''#'') ys" for ys
    using pa by (intro takeWhile_append2) (auto simp: url_plain_def path_encode_set_def)
  show ?thesis
  proof (cases "\<forall>x\<in>set b. c0_or_space x")
    case True
    then have sb: "rev (dropWhile c0_or_space (rev b)) = []" by (induction b rule: rev_induct) auto
    have sab: "rev (dropWhile c0_or_space (rev (a @ b))) = a"
      using True sa by (subst strip_trailing_append) simp
    have tw: "takeWhile (\<lambda>c. c \<noteq> CHR ''?'' \<and> c \<noteq> CHR ''#'') a = a"
      using ta [of "[]"] by (simp only: append_Nil2 takeWhile.simps(1))
    show ?thesis
      unfolding url_pathname_def
      by (simp only: sab sb fa tw encode_plain_list [OF pa] filter.simps(1) takeWhile.simps(1)
          list.map(1) concat.simps(1) append_Nil2)
  next
    case False
    have "rev (dropWhile c0_or_space (rev (a @ b))) = a @ rev (dropWhile c0_or_space (rev b))"
      by (subst strip_trailing_append) (simp only: if_not_P [OF False])
    then show ?thesis
      by (simp add: url_pathname_def fa ta encode_plain_list [OF pa])
  qed
qed

lemma url_pathname_plain:
  assumes "list_all url_plain s"
  shows "url_pathname s = s"
proof -
  have "url_pathname (s @ []) = s @ url_pathname []" using assms by (rule url_pathname_plain_append)
  then show ?thesis by (simp add: url_pathname_def)
qed

lemma percent_decode_plain: "list_all url_plain s \<Longrightarrow> percent_decode s = Some s"
  by (induction s rule: percent_decode.induct) (auto simp: url_plain_def)

lemma percent_decode_slash:
  "percent_decode (CHR ''%'' # CHR ''2'' # CHR ''F'' # s) = map_option (Cons (CHR ''/'')) (percent_decode s)"
  by (simp add: hex_val_def char_of_def bit_0)

lemma percent_decode_Cons_plain:
  "c \<noteq> CHR ''%'' \<Longrightarrow> percent_decode (c # s) = map_option (Cons c) (percent_decode s)"
  by (cases s rule: percent_decode.cases) auto

lemma percent_decode_append_plain:
  "list_all url_plain a \<Longrightarrow> percent_decode (a @ s) = map_option ((@) a) (percent_decode s)"
  by (induction a) (auto simp: url_plain_def percent_decode_Cons_plain map_option_case split: option.split)

end
