(* ===== verification/Http.thy ===== *)
theory Http
  imports MetaStore BlobStore Url
begin

text \<open>
  The vocabulary both hosts share: the HTTP requests the client sends, the
  responses the hosts return, the state of the two backing stores, and the set
  of store calls that fail during one request. A request's body is what the body
  parsers see: a JSON object with the fields \<open>title\<close>, \<open>path\<close>, \<open>position\<close> (each
  absent, \<open>null\<close> or a value), a body that is not valid JSON, or a multipart form
  whose field \<open>file\<close> is missing, a text value, or a file with its name and bytes.
  Each call to a store may fail (network, constraint, out-of-range value); which
  calls fail is an input \<open>F\<close> of every handler, so every \<open>catch\<close> of the source
  is a branch of the model.
\<close>

datatype http_method = GET | POST | OPTIONS | OTHER string

datatype 'a jfield = Absent | JNull | JVal 'a

record playlist_body =
  b_title :: "string jfield"
  b_path :: "string jfield"
  b_position :: "int jfield"

definition no_fields :: playlist_body where
  "no_fields = \<lparr>b_title = Absent, b_path = Absent, b_position = Absent\<rparr>"

datatype form_field = NoFile | TextField string | FilePart string bytes

datatype req_body = NoBody | JsonBody playlist_body | BadJson | FormBody form_field

record request =
  req_method :: http_method
  url_path :: string
  body :: req_body

text \<open>\<open>JErrorMessage\<close> is \<open>{error: err.message}\<close> for an error raised by a store, whose
  message the model does not track.\<close>

datatype json = JRow row | JRows "row list" | JError string | JErrorMessage | JUndefined | JNullValue

datatype resp_body = BJson json | BStream read_stream | BText string | BEmpty

record response =
  status :: nat
  rbody :: resp_body
  cors :: bool

record backend =
  meta :: meta_store
  blobs :: blob_store

definition empty_backend :: backend where
  "empty_backend = \<lparr>meta = empty_meta, blobs = Map.empty\<rparr>"

datatype io_call = QueryAll | QueryMax | QueryInsert | QuerySelectId | DavPut

type_synonym faults = "io_call set"

text \<open>The directory every upload is written to (server.js line 73, worker.js line 68).\<close>

definition music_dir :: string where
  "music_dir = ''/music/''"

text \<open>\<open>(maxPos || 0) + 1\<close> (server.js line 80, worker.js line 79): \<open>null\<close> and \<open>0\<close> are
  falsy and give \<open>0\<close>.\<close>

definition next_position :: "int option \<Rightarrow> int" where
  "next_position mp = (case mp of None \<Rightarrow> 0 | Some m \<Rightarrow> if m \<noteq> 0 then m else 0) + 1"

lemma next_position_simps [simp]:
  "next_position None = 1"
  "next_position (Some m) = m + 1"
  by (simp_all add: next_position_def)

text \<open>The position an upload computes is above every stored position.\<close>

lemma next_position_greatest:
  "r \<in> set rs \<Longrightarrow> position r < Some (next_position (max_position rs))"
proof -
  assume r: "r \<in> set rs"
  have le: "position r \<le> max_position rs" using r by (rule max_position_upper)
  show ?thesis
  proof (cases "max_position rs")
    case None
    with le show ?thesis by (cases "position r") auto
  next
    case (Some m)
    with le show ?thesis
      by (cases "position r") auto
  qed
qed

text \<open>So a row inserted at that position is listed last.\<close>

lemma select_ordered_insert_next:
  "select_ordered (snd (insert_row t p (Some (next_position (max_position (rows m)))) m)) =
     select_ordered m @ [\<lparr>row_id = next_id m, title = t, path = p,
                          position = Some (next_position (max_position (rows m)))\<rparr>]"
proof (rule select_ordered_insert_greatest)
  show "\<forall>r\<in>set (rows m). position r \<le> Some (next_position (max_position (rows m)))"
    using next_position_greatest by (blast intro: less_imp_le)
qed

end
