(* ===== verification/Worker.thy ===== *)
theory Worker
  imports Http
begin

text \<open>
  The request-scoped host, \<open>src/worker.js\<close>: one \<open>fetch(request, env, ctx)\<close> function
  that answers a CORS preflight, dispatches on the exact pathname and method, and
  wraps every route in one \<open>try\<close> whose \<open>catch\<close> answers 500 (lines 3--115). The
  routes run the same statements as \<open>src/server.js\<close> against the D1 binding, with
  three differences the model keeps: D1 refuses \<open>undefined\<close> as a bound value,
  the body readers \<open>request.json()\<close> and \<open>request.formData()\<close> throw on a body of
  another kind, and there is no file size limit. The 404 answer is built without
  the CORS headers.
\<close>

section \<open>JavaScript string built-ins\<close>

text \<open>\<open>s.startsWith(p)\<close> and \<open>s.replace(pat, rep)\<close> with a string pattern, which
  replaces the first occurrence only.\<close>

fun starts_with :: "string \<Rightarrow> string \<Rightarrow> bool" where
  "starts_with s [] = True"
| "starts_with [] (c # cs) = False"
| "starts_with (x # xs) (c # cs) = (x = c \<and> starts_with xs cs)"

fun replace_first :: "string \<Rightarrow> string \<Rightarrow> string \<Rightarrow> string" where
  "replace_first pat rep [] = (if pat = [] then rep else [])"
| "replace_first pat rep (c # cs) =
     (if starts_with (c # cs) pat then rep @ drop (length pat) (c # cs)
      else c # replace_first pat rep cs)"

section \<open>Responses\<close>

text \<open>Every response but the 404 spreads \<open>corsHeaders\<close> (lines 6--10).\<close>

definition cors_resp :: "nat \<Rightarrow> resp_body \<Rightarrow> response" where
  "cors_resp s b = \<lparr>status = s, rbody = b, cors = True\<rparr>"

definition worker_error :: response where
  "worker_error = cors_resp 500 (BJson JErrorMessage)"

definition worker_not_found :: response where
  "worker_not_found = \<lparr>status = 404, rbody = BText ''Not Found'', cors = False\<rparr>"

text \<open>\<open>.first()\<close>: the first row, \<open>null\<close> on an empty result.\<close>

definition first_or_null :: "row list \<Rightarrow> json" where
  "first_or_null rs = (case rs of [] \<Rightarrow> JNullValue | r # _ \<Rightarrow> JRow r)"

text \<open>\<open>.bind(...)\<close>: \<open>undefined\<close> throws (\<open>None\<close>), \<open>null\<close> is \<open>NULL\<close>.\<close>

fun d1_value :: "'a jfield \<Rightarrow> 'a option option" where
  "d1_value Absent = None"
| "d1_value JNull = Some None"
| "d1_value (JVal v) = Some (Some v)"

section \<open>Routes\<close>

text \<open>\<open>GET /api/playlist\<close> (lines 30--37).\<close>

definition worker_get_playlist :: "faults \<Rightarrow> backend \<Rightarrow> response \<times> backend" where
  "worker_get_playlist F st =
     (if QueryAll \<in> F then (worker_error, st)
      else (cors_resp 200 (BJson (JRows (select_ordered (meta st)))), st))"

text \<open>Insert, then read the row back by \<open>meta.last_row_id\<close> (lines 42--52 and 82--92).\<close>

definition worker_insert_select ::
  "faults \<Rightarrow> string option \<Rightarrow> string option \<Rightarrow> int option \<Rightarrow> backend \<Rightarrow> response \<times> backend" where
  "worker_insert_select F t p q st =
     (if QueryInsert \<in> F then (worker_error, st)
      else
        let (iid, m') = insert_row t p q (meta st);
            st' = st\<lparr>meta := m'\<rparr>
        in if QuerySelectId \<in> F then (worker_error, st')
           else (cors_resp 200 (BJson (first_or_null (select_by_id iid m'))), st'))"

text \<open>\<open>POST /api/playlist\<close> (lines 40--53): \<open>request.json()\<close> throws unless the body
  is JSON, and \<open>bind\<close> throws on an absent field; both before any write.\<close>

definition worker_post_playlist :: "faults \<Rightarrow> req_body \<Rightarrow> backend \<Rightarrow> response \<times> backend" where
  "worker_post_playlist F b st =
     (case b of
        JsonBody x \<Rightarrow>
          (case (d1_value (b_title x), d1_value (b_path x), d1_value (b_position x)) of
             (Some t, Some p, Some q) \<Rightarrow> worker_insert_select F t p q st
           | _ \<Rightarrow> (worker_error, st))
      | _ \<Rightarrow> (worker_error, st))"

text \<open>The file branch of \<open>POST /api/upload\<close> (lines 67--92).\<close>

definition worker_upload_file :: "faults \<Rightarrow> string \<Rightarrow> bytes \<Rightarrow> backend \<Rightarrow> response \<times> backend" where
  "worker_upload_file F name content st =
     (let fp = music_dir @ name in
      if DavPut \<in> F then (worker_error, st)
      else
        let st1 = st\<lparr>blobs := put_file_contents fp content (blobs st)\<rparr> in
        if QueryMax \<in> F then (worker_error, st1)
        else
          let np = next_position (max_position (rows (meta st1)))
          in worker_insert_select F (Some name) (Some fp) (Some np) st1)"

text \<open>\<open>POST /api/upload\<close> (lines 56--93): \<open>request.formData()\<close> throws unless the body
  is a form; \<open>formData.get('file')\<close> is \<open>null\<close> without the field and a string for
  a text value, of which only the empty one is falsy; for a non-empty text value
  \<open>file.arrayBuffer\<close> is not a function and the route throws before writing.\<close>

definition worker_upload :: "faults \<Rightarrow> req_body \<Rightarrow> backend \<Rightarrow> response \<times> backend" where
  "worker_upload F b st =
     (case b of
        FormBody NoFile \<Rightarrow> (cors_resp 400 (BJson (JError ''No file uploaded'')), st)
      | FormBody (TextField s) \<Rightarrow>
          if s = [] then (cors_resp 400 (BJson (JError ''No file uploaded'')), st)
          else (worker_error, st)
      | FormBody (FilePart name content) \<Rightarrow> worker_upload_file F name content st
      | _ \<Rightarrow> (worker_error, st))"

text \<open>\<open>GET /api/track/...\<close> (lines 96--106): the rest of the pathname after the
  prefix is the WebDAV path.\<close>

definition worker_track :: "string \<Rightarrow> backend \<Rightarrow> response \<times> backend" where
  "worker_track p st =
     (cors_resp 200 (BStream (create_read_stream (blobs st) (replace_first ''/api/track/'' [] p))), st)"

text \<open>The dispatch of \<open>fetch\<close> (lines 13--108).\<close>

definition worker_handle :: "faults \<Rightarrow> request \<Rightarrow> backend \<Rightarrow> response \<times> backend" where
  "worker_handle F req st =
     (if req_method req = OPTIONS then (cors_resp 200 BEmpty, st)
      else if url_path req = ''/api/playlist'' \<and> req_method req = GET then worker_get_playlist F st
      else if url_path req = ''/api/playlist'' \<and> req_method req = POST
        then worker_post_playlist F (body req) st
      else if url_path req = ''/api/upload'' \<and> req_method req = POST
        then worker_upload F (body req) st
      else if starts_with (url_path req) ''/api/track/'' \<and> req_method req = GET
        then worker_track (url_path req) st
      else (worker_not_found, st))"

section \<open>Lemmas\<close>

lemma starts_with_append [simp]: "starts_with (p @ s) p"
  by (induction p) auto

lemma starts_with_iff: "starts_with s p \<longleftrightarrow> take (length p) s = p"
  by (induction s p rule: starts_with.induct) auto

text \<open>After \<open>startsWith\<close> has held, \<open>replace\<close> removes exactly the prefix.\<close>

lemma replace_first_prefix: "replace_first p r (p @ s) = r @ s"
proof (cases "p @ s")
  case Nil then show ?thesis by simp
next
  case (Cons c cs)
  then show ?thesis by (metis replace_first.simps(2) starts_with_append append_eq_conv_conj)
qed

lemma worker_insert_select_ok:
  assumes "QueryInsert \<notin> F" and "QuerySelectId \<notin> F" and "meta_wf (meta st)"
  shows "worker_insert_select F t p q st =
    (cors_resp 200 (BJson (JRow \<lparr>row_id = next_id (meta st), title = t, path = p, position = q\<rparr>)),
     st\<lparr>meta := snd (insert_row t p q (meta st))\<rparr>)"
  using assms select_by_id_insert_row [of "meta st" t p q]
  by (simp add: worker_insert_select_def case_prod_unfold first_or_null_def)

lemma worker_insert_select_wf:
  "meta_wf (meta st) \<Longrightarrow> meta_wf (meta (snd (worker_insert_select F t p q st)))"
  by (simp add: worker_insert_select_def case_prod_unfold Let_def meta_wf_insert_row)

lemma worker_upload_file_ok:
  assumes "F \<inter> {DavPut, QueryMax, QueryInsert, QuerySelectId} = {}" and "meta_wf (meta st)"
  shows "worker_upload_file F name content st =
    (cors_resp 200 (BJson (JRow \<lparr>row_id = next_id (meta st), title = Some name,
        path = Some (music_dir @ name),
        position = Some (next_position (max_position (rows (meta st))))\<rparr>)),
     st\<lparr>blobs := put_file_contents (music_dir @ name) content (blobs st),
       meta := snd (insert_row (Some name) (Some (music_dir @ name))
                 (Some (next_position (max_position (rows (meta st))))) (meta st))\<rparr>)"
  using assms by (simp add: worker_upload_file_def Let_def worker_insert_select_ok)

lemma worker_handle_wf:
  "meta_wf (meta st) \<Longrightarrow> meta_wf (meta (snd (worker_handle F req st)))"
  by (auto simp: worker_handle_def worker_get_playlist_def worker_post_playlist_def
      worker_upload_def worker_upload_file_def worker_track_def Let_def worker_insert_select_wf
      split: req_body.splits form_field.splits option.splits prod.splits)

lemma worker_handle_upload_route:
  "worker_handle F \<lparr>req_method = POST, url_path = ''/api/upload'', body = b\<rparr> st = worker_upload F b st"
  by (simp add: worker_handle_def)

lemma worker_handle_track_route:
  "worker_handle F \<lparr>req_method = GET, url_path = ''/api/track/'' @ p, body = b\<rparr> st =
     (cors_resp 200 (BStream (create_read_stream (blobs st) p)), st)"
  by (simp add: worker_handle_def worker_track_def replace_first_prefix)

text \<open>A path that is neither a route nor under \<open>/api/track/\<close> gets the 404 without CORS.\<close>

lemma worker_handle_unrouted:
  assumes "req_method req \<noteq> OPTIONS" and "url_path req \<noteq> ''/api/playlist''"
    and "url_path req \<noteq> ''/api/upload''" and "\<not> starts_with (url_path req) ''/api/track/''"
  shows "worker_handle F req st = (worker_not_found, st)"
  using assms by (simp add: worker_handle_def)

end
