(* ===== verification/Server.thy ===== *)
theory Server
  imports Http
begin

text \<open>
  The long-running host, \<open>src/server.js\<close>: an Express application with the
  middleware \<open>cors()\<close> and \<open>express.json()\<close> (lines 13--14), multer with an
  in-memory storage and a 200 MB file limit (lines 17--22), and four routes
  (lines 43--103). Each route is one handler of the model taking the failing
  calls \<open>F\<close>, its input and the backend state, and returning the response and the
  new state; \<open>server_handle\<close> is Express's dispatch over them in the order the
  routes are registered. Express matches route paths case-insensitively and with
  an optional trailing slash; a \<open>:param\<close> matches one non-empty segment without
  \<open>/\<close>.
\<close>

section \<open>Responses\<close>

text \<open>\<open>app.use(cors())\<close> runs first, so every response carries the CORS headers.\<close>

definition express_resp :: "nat \<Rightarrow> resp_body \<Rightarrow> response" where
  "express_resp s b = \<lparr>status = s, rbody = b, cors = True\<rparr>"

definition store_error :: response where
  "store_error = express_resp 500 (BJson JErrorMessage)"

text \<open>\<open>newTrack[0]\<close>: the first row, \<open>undefined\<close> on an empty result.\<close>

definition first_row :: "row list \<Rightarrow> json" where
  "first_row rs = (case rs of [] \<Rightarrow> JUndefined | r # _ \<Rightarrow> JRow r)"

section \<open>Handlers\<close>

text \<open>\<open>GET /api/playlist\<close> (lines 43--50).\<close>

definition get_playlist :: "faults \<Rightarrow> backend \<Rightarrow> response \<times> backend" where
  "get_playlist F st =
     (if QueryAll \<in> F then (store_error, st)
      else (express_resp 200 (BJson (JRows (select_ordered (meta st)))), st))"

text \<open>The insert and read-back both write routes end with (lines 55--60 and
  83--89): insert the row, then select it by \<open>insertId\<close>.\<close>

definition insert_and_select ::
  "faults \<Rightarrow> string option \<Rightarrow> string option \<Rightarrow> int option \<Rightarrow> backend \<Rightarrow> response \<times> backend" where
  "insert_and_select F t p q st =
     (if QueryInsert \<in> F then (store_error, st)
      else
        let (iid, m') = insert_row t p q (meta st);
            st' = st\<lparr>meta := m'\<rparr>
        in if QuerySelectId \<in> F then (store_error, st')
           else (express_resp 200 (BJson (first_row (select_by_id iid m'))), st'))"

text \<open>mysql2 sends both \<open>undefined\<close> and \<open>null\<close> placeholders as \<open>NULL\<close>.\<close>

fun mysql_value :: "'a jfield \<Rightarrow> 'a option" where
  "mysql_value Absent = None"
| "mysql_value JNull = None"
| "mysql_value (JVal v) = Some v"

text \<open>\<open>POST /api/playlist\<close> (lines 52--64).\<close>

definition post_playlist :: "faults \<Rightarrow> playlist_body \<Rightarrow> backend \<Rightarrow> response \<times> backend" where
  "post_playlist F b st =
     insert_and_select F (mysql_value (b_title b)) (mysql_value (b_path b))
       (mysql_value (b_position b)) st"

text \<open>The body of \<open>POST /api/upload\<close> once multer has accepted a file (lines 72--89):
  write the blob, read the greatest position, insert the row, read it back.\<close>

definition upload_file :: "faults \<Rightarrow> string \<Rightarrow> bytes \<Rightarrow> backend \<Rightarrow> response \<times> backend" where
  "upload_file F name content st =
     (let fp = music_dir @ name in
      if DavPut \<in> F then (store_error, st)
      else
        let st1 = st\<lparr>blobs := put_file_contents fp content (blobs st)\<rparr> in
        if QueryMax \<in> F then (store_error, st1)
        else
          let np = next_position (max_position (rows (meta st1)))
          in insert_and_select F (Some name) (Some fp) (Some np) st1)"

definition upload_limit :: nat where
  "upload_limit = 200 * 1024 * 1024"

text \<open>\<open>POST /api/upload\<close> (lines 66--94) behind \<open>upload.single('file')\<close>: a file
  above the limit is rejected by multer before the handler runs and reaches
  Express's final handler (status 500); without a file part \<open>req.file\<close> is
  undefined and the handler answers 400.\<close>

definition upload :: "faults \<Rightarrow> form_field \<Rightarrow> backend \<Rightarrow> response \<times> backend" where
  "upload F f st =
     (case f of
        FilePart name content \<Rightarrow>
          if upload_limit < length content then (express_resp 500 (BText ''File too large''), st)
          else upload_file F name content st
      | _ \<Rightarrow> (express_resp 400 (BJson (JError ''No file uploaded'')), st))"

text \<open>\<open>GET /api/track/:path\<close> (lines 96--103). \<open>createReadStream\<close> does not throw, so
  the \<open>catch\<close> is never taken; a missing file surfaces as an error of the piped
  stream after the 200 status line.\<close>

definition track :: "string \<Rightarrow> backend \<Rightarrow> response \<times> backend" where
  "track p st = (express_resp 200 (BStream (create_read_stream (blobs st) p)), st)"

section \<open>Routing\<close>

definition lower_char :: "char \<Rightarrow> char" where
  "lower_char c = (let n = of_char c :: nat in if 65 \<le> n \<and> n \<le> 90 then char_of (n + 32) else c)"

text \<open>A literal route path, as path-to-regexp compiles it (\<open>^lit\/?$\<close>, case-insensitive).\<close>

definition route_match :: "string \<Rightarrow> string \<Rightarrow> bool" where
  "route_match lit p = (let q = map lower_char p in q = lit \<or> q = lit @ ''/'')"

text \<open>The route \<open>/api/track/:path\<close>: the prefix, then one non-empty segment without
  \<open>/\<close>, then an optional \<open>/\<close>; the segment is \<open>req.params.path\<close>.\<close>

definition track_param :: "string \<Rightarrow> string option" where
  "track_param p =
     (let rest = drop 11 p;
          seg = (if rest \<noteq> [] \<and> last rest = CHR ''/'' then butlast rest else rest)
      in if map lower_char (take 11 p) = ''/api/track/'' \<and> seg \<noteq> [] \<and> CHR ''/'' \<notin> set seg
         then Some seg else None)"

text \<open>\<open>req.body\<close> after \<open>express.json()\<close> (an empty object for a body that is not
  JSON) and \<open>req.file\<close> after multer (undefined for a body that is not multipart).\<close>

definition json_fields :: "req_body \<Rightarrow> playlist_body" where
  "json_fields b = (case b of JsonBody x \<Rightarrow> x | _ \<Rightarrow> no_fields)"

definition form_file :: "req_body \<Rightarrow> form_field" where
  "form_file b = (case b of FormBody f \<Rightarrow> f | _ \<Rightarrow> NoFile)"

text \<open>\<open>decode_param\<close> fails on a malformed escape; the router passes the error
  with status 400 to the final handler.\<close>

definition param_error :: response where
  "param_error = express_resp 400 (BText ''Failed to decode param'')"

definition not_found :: response where
  "not_found = express_resp 404 (BText ''Cannot GET'')"

text \<open>Dispatch: the CORS preflight answer, the JSON parser's 400 on a malformed body,
  then the routes in registration order, then Express's 404. The track route's
  parameter is percent-decoded before the handler runs.\<close>

definition server_handle :: "faults \<Rightarrow> request \<Rightarrow> backend \<Rightarrow> response \<times> backend" where
  "server_handle F req st =
     (if req_method req = OPTIONS then (express_resp 204 BEmpty, st)
      else if body req = BadJson then (express_resp 400 (BText ''Bad Request''), st)
      else if req_method req = GET \<and> route_match ''/api/playlist'' (url_path req) then get_playlist F st
      else if req_method req = POST \<and> route_match ''/api/playlist'' (url_path req)
        then post_playlist F (json_fields (body req)) st
      else if req_method req = POST \<and> route_match ''/api/upload'' (url_path req)
        then upload F (form_file (body req)) st
      else if req_method req = GET \<and> track_param (url_path req) \<noteq> None
        then (case percent_decode (the (track_param (url_path req))) of
                None \<Rightarrow> (param_error, st)
              | Some p \<Rightarrow> track p st)
      else (not_found, st))"

text \<open>Requests served one after another by the listening process (lines 105--107).\<close>

fun server_run :: "(faults \<times> request) list \<Rightarrow> backend \<Rightarrow> response list \<times> backend" where
  "server_run [] st = ([], st)"
| "server_run ((F, r) # xs) st =
     (let (resp, st1) = server_handle F r st; (rs, st2) = server_run xs st1 in (resp # rs, st2))"

section \<open>Dispatch\<close>

lemmas route_defs = route_match_def lower_char_def json_fields_def form_file_def

lemma server_handle_upload_route:
  "server_handle F \<lparr>req_method = POST, url_path = ''/api/upload'', body = b\<rparr> st =
     (if b = BadJson then (express_resp 400 (BText ''Bad Request''), st)
      else upload F (form_file b) st)"
  by (simp add: server_handle_def route_defs)

lemma server_handle_get_playlist_route:
  "server_handle F \<lparr>req_method = GET, url_path = ''/api/playlist'', body = NoBody\<rparr> st = get_playlist F st"
  by (simp add: server_handle_def route_defs)

lemma server_handle_post_playlist_route:
  "server_handle F \<lparr>req_method = POST, url_path = ''/api/playlist'', body = JsonBody b\<rparr> st =
     post_playlist F b st"
  by (simp add: server_handle_def route_defs)

section \<open>The write pipeline\<close>

lemma insert_and_select_ok:
  assumes "QueryInsert \<notin> F" and "QuerySelectId \<notin> F" and "meta_wf (meta st)"
  shows "insert_and_select F t p q st =
    (express_resp 200 (BJson (JRow \<lparr>row_id = next_id (meta st), title = t, path = p, position = q\<rparr>)),
     st\<lparr>meta := snd (insert_row t p q (meta st))\<rparr>)"
  using assms select_by_id_insert_row [of "meta st" t p q]
  by (simp add: insert_and_select_def case_prod_unfold first_row_def)

lemma insert_and_select_wf:
  "meta_wf (meta st) \<Longrightarrow> meta_wf (meta (snd (insert_and_select F t p q st)))"
  by (simp add: insert_and_select_def case_prod_unfold Let_def meta_wf_insert_row)

lemma insert_and_select_blobs [store_simps]:
  "blobs (snd (insert_and_select F t p q st)) = blobs st"
  by (simp add: insert_and_select_def case_prod_unfold Let_def)

lemma upload_file_ok:
  assumes "F \<inter> {DavPut, QueryMax, QueryInsert, QuerySelectId} = {}" and "meta_wf (meta st)"
  shows "upload_file F name content st =
    (express_resp 200 (BJson (JRow \<lparr>row_id = next_id (meta st), title = Some name,
        path = Some (music_dir @ name),
        position = Some (next_position (max_position (rows (meta st))))\<rparr>)),
     st\<lparr>blobs := put_file_contents (music_dir @ name) content (blobs st),
       meta := snd (insert_row (Some name) (Some (music_dir @ name))
                 (Some (next_position (max_position (rows (meta st))))) (meta st))\<rparr>)"
  using assms by (simp add: upload_file_def Let_def insert_and_select_ok)

lemma upload_file_wf:
  "meta_wf (meta st) \<Longrightarrow> meta_wf (meta (snd (upload_file F name content st)))"
  by (simp add: upload_file_def Let_def insert_and_select_wf)

lemma upload_wf:
  "meta_wf (meta st) \<Longrightarrow> meta_wf (meta (snd (upload F f st)))"
  by (simp add: upload_def upload_file_wf split: form_field.splits)

lemma server_handle_wf:
  "meta_wf (meta st) \<Longrightarrow> meta_wf (meta (snd (server_handle F req st)))"
  by (simp add: server_handle_def get_playlist_def post_playlist_def track_def
      insert_and_select_wf upload_wf split: option.split)

text \<open>Under \<open>meta_wf\<close> a 200 of a write route carries the row read back.\<close>

lemma insert_and_select_typed:
  assumes "meta_wf (meta st)" and "status (fst (insert_and_select F t p q st)) = 200"
  shows "\<exists>r. rbody (fst (insert_and_select F t p q st)) = BJson (JRow r)"
proof (cases "QueryInsert \<in> F \<or> QuerySelectId \<in> F")
  case True
  then show ?thesis using assms(2)
    by (auto simp: insert_and_select_def store_error_def express_resp_def case_prod_unfold Let_def
        split: if_splits)
next
  case False
  then show ?thesis using insert_and_select_ok [OF _ _ assms(1)] by (simp add: express_resp_def)
qed

lemma upload_file_typed:
  assumes "meta_wf (meta st)" and "status (fst (upload_file F n c st)) = 200"
  shows "\<exists>r. rbody (fst (upload_file F n c st)) = BJson (JRow r)"
proof -
  let ?st1 = "st\<lparr>blobs := put_file_contents (music_dir @ n) c (blobs st)\<rparr>"
  have w: "meta_wf (meta ?st1)" using assms(1) by simp
  show ?thesis using assms(2) insert_and_select_typed [OF w]
    by (auto simp: upload_file_def store_error_def express_resp_def Let_def split: if_splits)
qed

lemma upload_typed:
  assumes "meta_wf (meta st)" and "status (fst (upload F f st)) = 200"
  shows "\<exists>r. rbody (fst (upload F f st)) = BJson (JRow r)"
  using assms upload_file_typed [OF assms(1)]
  by (auto simp: upload_def express_resp_def split: form_field.splits if_splits)

lemma server_handle_post_playlist_any:
  "server_handle F \<lparr>req_method = POST, url_path = ''/api/playlist'', body = b\<rparr> st =
     (if b = BadJson then (express_resp 400 (BText ''Bad Request''), st)
      else post_playlist F (json_fields b) st)"
  by (simp add: server_handle_def route_defs)

section \<open>Runs\<close>

lemma server_run_wf:
  "meta_wf (meta st) \<Longrightarrow> meta_wf (meta (snd (server_run xs st)))"
proof (induction xs arbitrary: st)
  case Nil then show ?case by simp
next
  case (Cons x xs)
  obtain F r where x: "x = (F, r)" by (cases x)
  have "meta_wf (meta (snd (server_handle F r st)))"
    using Cons.prems by (rule server_handle_wf)
  then have "meta_wf (meta (snd (server_run xs (snd (server_handle F r st)))))"
    by (rule Cons.IH)
  then show ?case by (simp add: x case_prod_unfold Let_def)
qed

section \<open>Auxiliary facts of the properties\<close>

lemma max_position_None_iff: "max_position rs = None \<longleftrightarrow> (\<forall>r\<in>set rs. position r = None)"
  by (induction rs) (auto split: option.splits)

text \<open>The position the upload computes, in the words of the spec: one above the
  greatest stored position, or 1 when there is none.\<close>

lemma next_position_spec:
  "next_position (max_position rs) =
     (if \<forall>r\<in>set rs. position r = None then 1 else the (Max (position ` set rs)) + 1)"
proof (cases "max_position rs")
  case None
  then show ?thesis by (simp add: max_position_None_iff [symmetric])
next
  case (Some m)
  then have nn: "\<not> (\<forall>r\<in>set rs. position r = None)" and "Max (position ` set rs) = Some m"
    by (auto simp: max_position_Max max_position_None_iff [symmetric] split: if_splits)
  with Some show ?thesis by (simp only: if_not_P [OF nn]) simp
qed

text \<open>A track URL whose segment starts with a slash never matches \<open>/api/track/:path\<close>.\<close>

lemma track_param_slash_segment: "track_param (''/api/track/'' @ CHR ''/'' # s) = None"
  by (simp add: track_param_def lower_char_def Let_def butlast_append)

text \<open>So Express answers 404 to the URL the client builds for a stored path.\<close>

lemma server_handle_track_slash:
  "server_handle F \<lparr>req_method = GET, url_path = ''/api/track/'' @ CHR ''/'' # s, body = NoBody\<rparr> st =
     (not_found, st)"
  using track_param_slash_segment [of s] by (simp add: server_handle_def route_defs)

text \<open>A track URL whose parameter decodes reads the decoded path; one whose
  parameter does not decode gets the 400 of \<open>decode_param\<close>.\<close>

lemma server_handle_track_param:
  assumes "track_param (''/api/track/'' @ s) = Some seg"
  shows "server_handle F \<lparr>req_method = GET, url_path = ''/api/track/'' @ s, body = NoBody\<rparr> st =
           (case percent_decode seg of None \<Rightarrow> (param_error, st) | Some p \<Rightarrow> track p st)"
proof -
  have "\<not> route_match ''/api/playlist'' (''/api/track/'' @ s)"
    and "\<not> route_match ''/api/upload'' (''/api/track/'' @ s)"
    by (simp_all add: route_defs)
  then show ?thesis using assms by (simp add: server_handle_def)
qed

text \<open>The track URL with the stored path encoded as one segment, as
  \<open>encodeURIComponent\<close> would send it.\<close>

lemma track_param_encoded_music:
  assumes "list_all url_plain n" and "CHR ''/'' \<notin> set n"
  shows "track_param (''/api/track/'' @ ''%2Fmusic%2F'' @ n) = Some (''%2Fmusic%2F'' @ n)"
proof -
  have "n \<noteq> [] \<Longrightarrow> last n \<noteq> CHR ''/''" using assms(2) last_in_set by metis
  then show ?thesis using assms(2)
    by (auto simp: track_param_def lower_char_def Let_def)
qed

lemma percent_decode_encoded_music:
  assumes "list_all url_plain n"
  shows "percent_decode (''%2Fmusic%2F'' @ n) = Some (''/music/'' @ n)"
proof -
  have m: "list_all url_plain ''music''" by (simp add: url_plain_def path_encode_set_def tab_or_newline_def)
  have "percent_decode (''%2Fmusic%2F'' @ n) =
      map_option (Cons (CHR ''/'')) (percent_decode (''music'' @ ''%2F'' @ n))"
    using percent_decode_slash [of "''music%2F'' @ n"] by simp
  also have "\<dots> = Some (''/music/'' @ n)"
    using percent_decode_append_plain [OF m, of "''%2F'' @ n"] percent_decode_slash [of n]
      percent_decode_plain [OF assms] by simp
  finally show ?thesis .
qed

lemmas upload_defs = upload_def upload_limit_def music_dir_def

section \<open>Properties of the upload route\<close>

text \<open>
  C1. A successful upload (no store call fails, the file within multer's limit)
  writes the file to \<open>/music/<name>\<close>, appends the row
  \<open>(title = name, path = /music/<name>, position)\<close> with the next id, and answers
  200 with that row; the position is one above the greatest stored position, or 1
  when no row has one.
\<close>

theorem upload_success:
  assumes "meta_wf (meta st)" and "length content \<le> upload_limit"
  shows "let r = \<lparr>row_id = next_id (meta st), title = Some name, path = Some (''/music/'' @ name),
            position = Some (if \<forall>x\<in>set (rows (meta st)). position x = None then 1
                             else the (Max (position ` set (rows (meta st)))) + 1)\<rparr>
         in server_handle {} \<lparr>req_method = POST, url_path = ''/api/upload'',
                              body = FormBody (FilePart name content)\<rparr> st =
            (express_resp 200 (BJson (JRow r)),
             st\<lparr>blobs := (blobs st)(''/music/'' @ name \<mapsto> content),
               meta := \<lparr>rows = rows (meta st) @ [r], next_id = Suc (next_id (meta st))\<rparr>\<rparr>)"
proof -
  have "upload {} (FilePart name content) st = upload_file {} name content st"
    using assms(2) by (simp add: upload_def)
  then show ?thesis
    using upload_file_ok [of "{}" st name content] assms(1)
    by (simp add: server_handle_upload_route form_file_def next_position_spec
        insert_row_def put_file_contents_def music_dir_def)
qed

theorem upload_success_witness:
  "meta_wf (meta empty_backend) \<and> length [1, 2, 3 :: byte] \<le> upload_limit \<and>
   fst (server_handle {} \<lparr>req_method = POST, url_path = ''/api/upload'',
                          body = FormBody (FilePart ''song.mp3'' [1, 2, 3])\<rparr> empty_backend) =
     express_resp 200 (BJson (JRow \<lparr>row_id = 1, title = Some ''song.mp3'',
                                   path = Some ''/music/song.mp3'', position = Some 1\<rparr>))"
proof -
  have h1: "meta_wf (meta empty_backend)" by (simp add: empty_backend_def)
  have h2: "length [1, 2, 3 :: byte] \<le> upload_limit" by (simp add: upload_limit_def)
  show ?thesis
    using upload_success [OF h1 h2, of "''song.mp3''"] h1 h2
    by (simp add: Let_def empty_backend_def empty_meta_def)
qed

text \<open>
  C2. Seen through \<open>GET /api/playlist\<close>, a successful upload appends the track it
  returns to the end of the listing: the listing after the upload is the listing
  before it followed by the returned row.
\<close>

theorem upload_appends_to_listing:
  assumes "meta_wf (meta st)" and "length content \<le> upload_limit"
  shows "\<exists>r. fst (server_handle {} \<lparr>req_method = POST, url_path = ''/api/upload'',
                                  body = FormBody (FilePart name content)\<rparr> st) =
               express_resp 200 (BJson (JRow r)) \<and>
             select_ordered (meta (snd (server_handle {} \<lparr>req_method = POST, url_path = ''/api/upload'',
                                  body = FormBody (FilePart name content)\<rparr> st))) =
               select_ordered (meta st) @ [r]"
proof -
  let ?np = "next_position (max_position (rows (meta st)))"
  let ?r = "\<lparr>row_id = next_id (meta st), title = Some name, path = Some (music_dir @ name),
             position = Some ?np\<rparr>"
  have up: "upload {} (FilePart name content) st = upload_file {} name content st"
    using assms(2) by (simp add: upload_def)
  show ?thesis
    using upload_file_ok [of "{}" st name content] assms(1) up select_ordered_insert_next
    by (simp add: server_handle_upload_route form_file_def)
qed

theorem upload_appends_to_listing_witness:
  "meta_wf (meta empty_backend) \<and> length [7 :: byte] \<le> upload_limit \<and>
   (\<exists>r. fst (server_handle {} \<lparr>req_method = POST, url_path = ''/api/upload'',
                              body = FormBody (FilePart ''a.mp3'' [7])\<rparr> empty_backend) =
          express_resp 200 (BJson (JRow r)) \<and>
        select_ordered (meta (snd (server_handle {} \<lparr>req_method = POST, url_path = ''/api/upload'',
                              body = FormBody (FilePart ''a.mp3'' [7])\<rparr> empty_backend))) =
          select_ordered (meta empty_backend) @ [r])"
proof -
  have h1: "meta_wf (meta empty_backend)" by (simp add: empty_backend_def)
  have h2: "length [7 :: byte] \<le> upload_limit" by (simp add: upload_limit_def)
  show ?thesis using upload_appends_to_listing [OF h1 h2, of "''a.mp3''"] h1 h2 by blast
qed

text \<open>
  C3. An upload request without a file part (no form, no field \<open>file\<close>, or a text
  value in it) is answered 400 \<open>No file uploaded\<close> and writes to neither store.
\<close>

theorem upload_missing_file:
  assumes "b \<noteq> BadJson" and "\<forall>n c. b \<noteq> FormBody (FilePart n c)"
  shows "server_handle F \<lparr>req_method = POST, url_path = ''/api/upload'', body = b\<rparr> st =
           (express_resp 400 (BJson (JError ''No file uploaded'')), st)"
  using assms
  by (simp add: server_handle_upload_route upload_def form_file_def
      split: req_body.splits form_field.splits)

theorem upload_missing_file_witness:
  "FormBody NoFile \<noteq> BadJson \<and> (\<forall>n c. FormBody NoFile \<noteq> FormBody (FilePart n c)) \<and>
   server_handle {} \<lparr>req_method = POST, url_path = ''/api/upload'', body = FormBody NoFile\<rparr> empty_backend =
     (express_resp 400 (BJson (JError ''No file uploaded'')), empty_backend)"
  using upload_missing_file [of "FormBody NoFile" "{}" empty_backend] by simp

text \<open>
  C4. The two writes of an upload are not atomic: when the blob is written but
  reading the greatest position or inserting the row fails, the request is
  answered 500 and the file stays in the blob store with no row naming it.
\<close>

theorem upload_orphan_blob:
  assumes "DavPut \<notin> F" and "QueryMax \<in> F \<or> QueryInsert \<in> F"
    and "length content \<le> upload_limit"
  shows "server_handle F \<lparr>req_method = POST, url_path = ''/api/upload'',
                           body = FormBody (FilePart name content)\<rparr> st =
           (store_error, st\<lparr>blobs := (blobs st)(''/music/'' @ name \<mapsto> content)\<rparr>)"
  using assms
  by (auto simp: server_handle_upload_route form_file_def upload_defs upload_file_def
      insert_and_select_def put_file_contents_def Let_def)

theorem upload_orphan_blob_witness:
  "DavPut \<notin> {QueryInsert} \<and> (QueryMax \<in> {QueryInsert} \<or> QueryInsert \<in> {QueryInsert}) \<and>
   length [1 :: byte] \<le> upload_limit \<and>
   server_handle {QueryInsert} \<lparr>req_method = POST, url_path = ''/api/upload'',
                               body = FormBody (FilePart ''a.mp3'' [1])\<rparr> empty_backend =
     (store_error, empty_backend\<lparr>blobs := [''/music/a.mp3'' \<mapsto> [1]]\<rparr>)"
proof -
  have h: "length [1 :: byte] \<le> upload_limit" by (simp add: upload_limit_def)
  show ?thesis using upload_orphan_blob [of "{QueryInsert}", OF _ _ h] h
    by (simp add: empty_backend_def)
qed

text \<open>
  C5. When every write of an upload succeeds but reading the new row back fails,
  the request is answered 500 although the row is stored: the client sees an error
  for an upload that took effect.
\<close>

theorem upload_readback_failure:
  assumes "F \<inter> {DavPut, QueryMax, QueryInsert} = {}" and "QuerySelectId \<in> F"
    and "length content \<le> upload_limit"
  shows "fst (server_handle F \<lparr>req_method = POST, url_path = ''/api/upload'',
                               body = FormBody (FilePart name content)\<rparr> st) = store_error \<and>
         (\<exists>r. rows (meta (snd (server_handle F \<lparr>req_method = POST, url_path = ''/api/upload'',
                               body = FormBody (FilePart name content)\<rparr> st))) = rows (meta st) @ [r] \<and>
              path r = Some (''/music/'' @ name))"
  using assms
  by (auto simp: server_handle_upload_route form_file_def upload_defs upload_file_def
      insert_and_select_def case_prod_unfold Let_def store_simps)

theorem upload_readback_failure_witness:
  "{QuerySelectId} \<inter> {DavPut, QueryMax, QueryInsert} = {} \<and> QuerySelectId \<in> {QuerySelectId} \<and>
   length [1 :: byte] \<le> upload_limit \<and>
   fst (server_handle {QuerySelectId} \<lparr>req_method = POST, url_path = ''/api/upload'',
                               body = FormBody (FilePart ''a.mp3'' [1])\<rparr> empty_backend) = store_error"
proof -
  have h: "length [1 :: byte] \<le> upload_limit" by (simp add: upload_limit_def)
  show ?thesis using upload_readback_failure [of "{QuerySelectId}", OF _ _ h] h by simp
qed

text \<open>
  C6. multer's limit: a file of more than 200 MB (209715200 bytes) is refused with
  status 500 before the handler runs, and neither store is written.
\<close>

theorem upload_too_large:
  assumes "upload_limit < length content"
  shows "server_handle F \<lparr>req_method = POST, url_path = ''/api/upload'',
                           body = FormBody (FilePart name content)\<rparr> st =
           (express_resp 500 (BText ''File too large''), st)"
  using assms by (simp add: server_handle_upload_route form_file_def upload_def)

theorem upload_too_large_witness:
  "upload_limit < length (replicate 209715201 (0 :: byte)) \<and>
   server_handle {} \<lparr>req_method = POST, url_path = ''/api/upload'',
                     body = FormBody (FilePart ''big.mp3'' (replicate 209715201 0))\<rparr> empty_backend =
     (express_resp 500 (BText ''File too large''), empty_backend)"
proof -
  have h: "upload_limit < length (replicate 209715201 (0 :: byte))" by (simp add: upload_limit_def)
  show ?thesis using upload_too_large [OF h] h by simp
qed

text \<open>
  C7. The server never serves the track URL of an uploaded file: the client
  requests \<open>/api/track/<path>\<close> with the stored path \<open>/music/<name>\<close>, so the
  segment after \<open>/api/track/\<close> starts with a slash, which the route parameter
  \<open>:path\<close> does not match; Express answers 404.
\<close>

theorem server_track_url_not_found:
  "server_handle F \<lparr>req_method = GET, url_path = ''/api/track/'' @ ''/music/'' @ name, body = NoBody\<rparr> st =
     (not_found, st)"
proof -
  have "track_param (''/api/track/'' @ ''/music/'' @ name) = None"
    using track_param_slash_segment [of "''music/'' @ name"] by simp
  then show ?thesis by (simp add: server_handle_def route_defs)
qed

text \<open>
  C8. After any sequence of requests served from an empty store, \<open>GET /api/playlist\<close>
  answers with all stored rows, each once, sorted by position (rows without a
  position first).
\<close>

theorem listing_sorted_after_run:
  assumes "QueryAll \<notin> F"
  shows "\<exists>ys. server_handle F \<lparr>req_method = GET, url_path = ''/api/playlist'', body = NoBody\<rparr>
                (snd (server_run xs empty_backend)) =
              (express_resp 200 (BJson (JRows ys)), snd (server_run xs empty_backend)) \<and>
              sorted (map position ys) \<and> mset ys = mset (rows (meta (snd (server_run xs empty_backend)))) \<and>
              distinct (map row_id ys)"
proof -
  let ?m = "meta (snd (server_run xs empty_backend))"
  have wf: "meta_wf ?m" by (rule server_run_wf) (simp add: empty_backend_def)
  then have "distinct (map row_id (rows ?m))" by (simp add: meta_wf_def strict_sorted_iff)
  moreover have "mset (map row_id (select_ordered ?m)) = mset (map row_id (rows ?m))"
    by (simp add: mset_select_ordered)
  ultimately have "distinct (map row_id (select_ordered ?m))"
    using mset_eq_imp_distinct_iff by blast
  with assms show ?thesis
    by (intro exI [of _ "select_ordered ?m"])
      (simp add: server_handle_get_playlist_route get_playlist_def
        select_ordered_sorted mset_select_ordered)
qed

theorem listing_sorted_after_run_witness:
  "QueryAll \<notin> {} \<and>
   (\<exists>ys. server_handle {} \<lparr>req_method = GET, url_path = ''/api/playlist'', body = NoBody\<rparr>
          (snd (server_run [({}, \<lparr>req_method = POST, url_path = ''/api/upload'',
                                body = FormBody (FilePart ''a.mp3'' [1])\<rparr>)] empty_backend)) =
        (express_resp 200 (BJson (JRows ys)),
         snd (server_run [({}, \<lparr>req_method = POST, url_path = ''/api/upload'',
                                body = FormBody (FilePart ''a.mp3'' [1])\<rparr>)] empty_backend)) \<and>
        sorted (map position ys) \<and>
        mset ys = mset (rows (meta (snd (server_run [({}, \<lparr>req_method = POST, url_path = ''/api/upload'',
                                body = FormBody (FilePart ''a.mp3'' [1])\<rparr>)] empty_backend)))) \<and>
        distinct (map row_id ys))"
proof (rule conjI)
  show "QueryAll \<notin> {}" by simp
  then show "\<exists>ys. server_handle {} \<lparr>req_method = GET, url_path = ''/api/playlist'', body = NoBody\<rparr>
          (snd (server_run [({}, \<lparr>req_method = POST, url_path = ''/api/upload'',
                                body = FormBody (FilePart ''a.mp3'' [1])\<rparr>)] empty_backend)) =
        (express_resp 200 (BJson (JRows ys)),
         snd (server_run [({}, \<lparr>req_method = POST, url_path = ''/api/upload'',
                                body = FormBody (FilePart ''a.mp3'' [1])\<rparr>)] empty_backend)) \<and>
        sorted (map position ys) \<and>
        mset ys = mset (rows (meta (snd (server_run [({}, \<lparr>req_method = POST, url_path = ''/api/upload'',
                                body = FormBody (FilePart ''a.mp3'' [1])\<rparr>)] empty_backend)))) \<and>
        distinct (map row_id ys)"
    by (rule listing_sorted_after_run)
qed


section \<open>Properties of the track route\<close>

text \<open>
  C30. Express does serve an uploaded track when the client sends the stored
  path as one encoded segment: after an upload of \<open>name\<close>, the request
  \<open>/api/track/%2Fmusic%2F<name>\<close> streams exactly the uploaded content, because
  the router decodes the parameter to \<open>/music/<name>\<close>.
\<close>

theorem server_encoded_track_roundtrip:
  assumes "meta_wf (meta st)" and "length c \<le> upload_limit"
    and "list_all url_plain n" and "CHR ''/'' \<notin> set n"
  shows "fst (server_handle G \<lparr>req_method = GET, url_path = ''/api/track/'' @ ''%2Fmusic%2F'' @ n,
                              body = NoBody\<rparr>
             (snd (server_handle {} \<lparr>req_method = POST, url_path = ''/api/upload'',
                                    body = FormBody (FilePart n c)\<rparr> st))) =
         express_resp 200 (BStream (StreamData c))"
proof -
  let ?up = "\<lparr>req_method = POST, url_path = ''/api/upload'', body = FormBody (FilePart n c)\<rparr>"
  have b: "blobs (snd (server_handle {} ?up st)) = put_file_contents (''/music/'' @ n) c (blobs st)"
    using upload_file_ok [of "{}" st n c] assms(1,2)
    by (simp add: server_handle_upload_route form_file_def upload_def music_dir_def)
  show ?thesis
    using server_handle_track_param [OF track_param_encoded_music [OF assms(3,4)], of G]
      percent_decode_encoded_music [OF assms(3)]
    by (simp add: track_def b store_simps)
qed

theorem server_encoded_track_roundtrip_witness:
  "meta_wf (meta empty_backend) \<and> length [7 :: byte] \<le> upload_limit \<and>
   list_all url_plain ''a.mp3'' \<and> CHR ''/'' \<notin> set ''a.mp3'' \<and>
   fst (server_handle {} \<lparr>req_method = GET, url_path = ''/api/track/'' @ ''%2Fmusic%2F'' @ ''a.mp3'',
                         body = NoBody\<rparr>
        (snd (server_handle {} \<lparr>req_method = POST, url_path = ''/api/upload'',
                               body = FormBody (FilePart ''a.mp3'' [7])\<rparr> empty_backend))) =
     express_resp 200 (BStream (StreamData [7]))"
proof -
  have h1: "meta_wf (meta empty_backend)" by (simp add: empty_backend_def)
  have h2: "length [7 :: byte] \<le> upload_limit" by (simp add: upload_limit_def)
  have h3: "list_all url_plain ''a.mp3''" by (simp add: url_plain_def path_encode_set_def tab_or_newline_def)
  have h4: "CHR ''/'' \<notin> set ''a.mp3''" by simp
  show ?thesis using server_encoded_track_roundtrip [OF h1 h2 h3 h4] h1 h2 h3 h4 by blast
qed



end
