(* ===== verification/Concurrency.thy ===== *)
theory Concurrency
  imports Server
begin

text \<open>
  Concurrent requests. Node serves many requests at once: a handler gives up
  control at every \<open>await\<close>, and the store calls of different requests interleave.
  An upload (server.js lines 76--89) is a thread of four atomic store calls:
  write the blob, read \<open>MAX(position)\<close>, insert the row, read it back; a direct
  insert (lines 55--60) is the last two. A thread's program counter \<open>pc\<close> says
  which call it makes next; \<open>exec_pc\<close> is that call. The system is the backend
  with the list of threads; an \<open>action\<close> spawns a thread, runs one thread's next
  call, or makes that call fail (the thread then answers 500). \<open>reach b\<close> are the
  states reachable from the empty system, where \<open>b\<close> says whether direct inserts
  (\<open>POST /api/playlist\<close>) are among the requests. \<open>pc_rank\<close> counts the store
  calls a thread still makes. It gives the termination of the interleaving and
  a schedule, \<open>finish_actions\<close>, that answers every request.
\<close>

section \<open>Threads\<close>

datatype pc =
    Put string bytes
  | ReadMax string
  | Insert "string option" "string option" "int option"
  | ReadBack nat
  | Done response

record sys =
  store :: backend
  pcs :: "pc list"

definition init_sys :: sys where
  "init_sys = \<lparr>store = empty_backend, pcs = []\<rparr>"

text \<open>One awaited call of a thread (\<open>None\<close> once it has answered).\<close>

fun exec_pc :: "pc \<Rightarrow> backend \<Rightarrow> (pc \<times> backend) option" where
  "exec_pc (Put name c) st =
     Some (ReadMax name, st\<lparr>blobs := put_file_contents (music_dir @ name) c (blobs st)\<rparr>)"
| "exec_pc (ReadMax name) st =
     Some (Insert (Some name) (Some (music_dir @ name))
             (Some (next_position (max_position (rows (meta st))))), st)"
| "exec_pc (Insert t p q) st =
     (let (iid, m') = insert_row t p q (meta st) in Some (ReadBack iid, st\<lparr>meta := m'\<rparr>))"
| "exec_pc (ReadBack iid) st =
     Some (Done (express_resp 200 (BJson (first_row (select_by_id iid (meta st))))), st)"
| "exec_pc (Done r) st = None"


datatype action =
    SpawnUpload string bytes
  | SpawnInsert "string option" "string option" "int option"
  | Run nat
  | Fail nat

fun is_done :: "pc \<Rightarrow> bool" where
  "is_done (Done _) = True"
| "is_done _ = False"

fun act :: "bool \<Rightarrow> action \<Rightarrow> sys \<Rightarrow> sys option" where
  "act b (SpawnUpload n c) s = Some (s\<lparr>pcs := pcs s @ [Put n c]\<rparr>)"
| "act b (SpawnInsert t p q) s = (if b then Some (s\<lparr>pcs := pcs s @ [Insert t p q]\<rparr>) else None)"
| "act b (Run i) s =
     (if i < length (pcs s) then
        (case exec_pc (pcs s ! i) (store s) of
           None \<Rightarrow> None
         | Some (c, st) \<Rightarrow> Some \<lparr>store = st, pcs = (pcs s)[i := c]\<rparr>)
      else None)"
| "act b (Fail i) s =
     (if i < length (pcs s) \<and> \<not> is_done (pcs s ! i)
      then Some (s\<lparr>pcs := (pcs s)[i := Done store_error]\<rparr>) else None)"

inductive reach :: "bool \<Rightarrow> sys \<Rightarrow> bool" for b where
  init: "reach b init_sys"
| step: "reach b s \<Longrightarrow> act b a s = Some s' \<Longrightarrow> reach b s'"

fun run_actions :: "bool \<Rightarrow> action list \<Rightarrow> sys \<Rightarrow> sys option" where
  "run_actions b [] s = Some s"
| "run_actions b (a # as) s = (case act b a s of None \<Rightarrow> None | Some s' \<Rightarrow> run_actions b as s')"

section \<open>Invariants\<close>

fun pc_backed :: "blob_store \<Rightarrow> pc \<Rightarrow> bool" where
  "pc_backed bl (ReadMax n) = (music_dir @ n \<in> dom bl)"
| "pc_backed bl (Insert t p q) = (\<exists>x. p = Some x \<and> x \<in> dom bl)"
| "pc_backed bl _ = True"

text \<open>Every row names a path whose file is in the blob store, and so does every
  thread about to insert one.\<close>

definition blob_backed :: "sys \<Rightarrow> bool" where
  "blob_backed s \<longleftrightarrow>
     (\<forall>r\<in>set (rows (meta (store s))). \<exists>p. path r = Some p \<and> p \<in> dom (blobs (store s))) \<and>
     (\<forall>c\<in>set (pcs s). pc_backed (blobs (store s)) c)"

fun pc_resp_ok :: "row list \<Rightarrow> pc \<Rightarrow> bool" where
  "pc_resp_ok rs (ReadBack iid) = (\<exists>r\<in>set rs. row_id r = iid)"
| "pc_resp_ok rs (Done resp) =
     (status resp = 200 \<longrightarrow> (\<exists>r\<in>set rs. resp = express_resp 200 (BJson (JRow r))))"
| "pc_resp_ok rs _ = True"

text \<open>The store is well formed, and every thread about to read back holds the id of
  a stored row.\<close>

definition readback_ok :: "sys \<Rightarrow> bool" where
  "readback_ok s \<longleftrightarrow>
     meta_wf (meta (store s)) \<and> (\<forall>c\<in>set (pcs s). pc_resp_ok (rows (meta (store s))) c)"

definition top_pos :: "row list \<Rightarrow> int" where
  "top_pos rs = (case max_position rs of None \<Rightarrow> 0 | Some m \<Rightarrow> m)"

definition pos_set :: "row list \<Rightarrow> int set" where
  "pos_set rs = {v. \<exists>r\<in>set rs. position r = Some v}"

fun pc_pos_ok :: "int \<Rightarrow> pc \<Rightarrow> bool" where
  "pc_pos_ok t (Insert _ _ q) = (\<exists>v. q = Some v \<and> 1 \<le> v \<and> v \<le> t + 1)"
| "pc_pos_ok t _ = True"

text \<open>Every row has a position and the positions are exactly \<open>1..top\<close>.\<close>

definition rows_gapless :: "row list \<Rightarrow> bool" where
  "rows_gapless rs \<longleftrightarrow> (\<forall>r\<in>set rs. position r \<noteq> None) \<and> pos_set rs = {1..top_pos rs}"

text \<open>The rows are gapless and every pending insert carries a position in \<open>1..top+1\<close>.\<close>

definition gapless :: "sys \<Rightarrow> bool" where
  "gapless s \<longleftrightarrow>
     rows_gapless (rows (meta (store s))) \<and>
     (\<forall>c\<in>set (pcs s). pc_pos_ok (top_pos (rows (meta (store s)))) c)"

section \<open>Progress\<close>




section \<open>Generic facts\<close>

lemma ball_set_update:
  "\<forall>x\<in>set xs. P x \<Longrightarrow> P y \<Longrightarrow> \<forall>x\<in>set (xs[i := y]). P x"
  using set_update_subset_insert by fastforce

lemma reach_run_actions:
  "run_actions b as s = Some s' \<Longrightarrow> reach b s \<Longrightarrow> reach b s'"
proof (induction as arbitrary: s)
  case Nil then show ?case by simp
next
  case (Cons a as)
  then obtain s1 where a: "act b a s = Some s1" and rest: "run_actions b as s1 = Some s'"
    by (auto split: option.splits)
  from Cons.prems(2) a have "reach b s1" by (rule reach.step)
  with rest show ?case by (rule Cons.IH)
qed

lemma act_SpawnInsert_False [simp]: "act False (SpawnInsert t p q) s = None"
  by simp

lemma act_Run_Some:
  "act b (Run i) s = Some s' \<Longrightarrow>
     \<exists>c st. i < length (pcs s) \<and> exec_pc (pcs s ! i) (store s) = Some (c, st) \<and>
            s' = \<lparr>store = st, pcs = (pcs s)[i := c]\<rparr>"
  by (auto split: if_splits option.splits)

lemma act_Fail_Some:
  "act b (Fail i) s = Some s' \<Longrightarrow>
     store s' = store s \<and> pcs s' = (pcs s)[i := Done store_error]"
  by (auto split: if_splits)

section \<open>Blob backing\<close>

lemma pc_backed_mono: "pc_backed bl c \<Longrightarrow> dom bl \<subseteq> dom bl' \<Longrightarrow> pc_backed bl' c"
  by (cases c) (use subsetD in fastforce)+

lemma exec_pc_dom_mono:
  "exec_pc c st = Some (c', st') \<Longrightarrow> dom (blobs st) \<subseteq> dom (blobs st')"
  by (cases c) (auto simp: put_file_contents_def case_prod_unfold Let_def)

lemma exec_pc_backed:
  assumes "exec_pc c st = Some (c', st')"
    and "\<forall>r\<in>set (rows (meta st)). \<exists>p. path r = Some p \<and> p \<in> dom (blobs st)"
    and "pc_backed (blobs st) c"
  shows "(\<forall>r\<in>set (rows (meta st')). \<exists>p. path r = Some p \<and> p \<in> dom (blobs st')) \<and>
         pc_backed (blobs st') c'"
proof (cases c)
  case (Put n x)
  with assms show ?thesis by (fastforce simp: put_file_contents_def)
next
  case (ReadMax n)
  with assms show ?thesis by auto
next
  case (Insert t p q)
  with assms show ?thesis by (auto simp: insert_row_def)
next
  case (ReadBack i)
  with assms show ?thesis by auto
next
  case (Done r)
  with assms show ?thesis by simp
qed

lemma act_blob_backed:
  assumes "act False a s = Some s'" and "blob_backed s"
  shows "blob_backed s'"
proof (cases a)
  case (SpawnUpload n c)
  with assms show ?thesis by (auto simp: blob_backed_def)
next
  case (SpawnInsert t p q)
  with assms show ?thesis by simp
next
  case (Run i)
  from assms(1) have "act False (Run i) s = Some s'" unfolding Run .
  then obtain c st where i: "i < length (pcs s)"
    and ex: "exec_pc (pcs s ! i) (store s) = Some (c, st)"
    and s': "s' = \<lparr>store = st, pcs = (pcs s)[i := c]\<rparr>"
    using act_Run_Some by blast
  have all: "\<forall>x\<in>set (pcs s). pc_backed (blobs (store s)) x"
    and rs: "\<forall>r\<in>set (rows (meta (store s))). \<exists>p. path r = Some p \<and> p \<in> dom (blobs (store s))"
    using assms(2) by (simp_all add: blob_backed_def)
  have ci: "pc_backed (blobs (store s)) (pcs s ! i)"
    using all i nth_mem by blast
  note new = exec_pc_backed [OF ex rs ci]
  have "\<forall>x\<in>set (pcs s). pc_backed (blobs st) x"
  proof
    fix x assume "x \<in> set (pcs s)"
    with all have "pc_backed (blobs (store s)) x" by blast
    then show "pc_backed (blobs st) x" using exec_pc_dom_mono [OF ex] by (rule pc_backed_mono)
  qed
  then have "\<forall>x\<in>set ((pcs s)[i := c]). pc_backed (blobs st) x"
    using new by (intro ball_set_update) simp_all
  with new s' show ?thesis by (simp add: blob_backed_def)
next
  case (Fail i)
  from assms(1) have "act False (Fail i) s = Some s'" unfolding Fail .
  note f = act_Fail_Some [OF this]
  have "\<forall>x\<in>set (pcs s). pc_backed (blobs (store s)) x"
    using assms(2) unfolding blob_backed_def by (rule conjunct2)
  then have "\<forall>x\<in>set ((pcs s)[i := Done store_error]). pc_backed (blobs (store s)) x"
    by (rule ball_set_update) simp
  with assms(2) f show ?thesis unfolding blob_backed_def by simp
qed

lemma reach_blob_backed: "reach False s \<Longrightarrow> blob_backed s"
proof (induction rule: reach.induct)
  case init then show ?case by (simp add: blob_backed_def init_sys_def empty_backend_def empty_meta_def)
next
  case (step s a s') then show ?case by (blast intro: act_blob_backed)
qed

section \<open>Read-back\<close>

lemma pc_resp_ok_mono: "pc_resp_ok rs c \<Longrightarrow> set rs \<subseteq> set rs' \<Longrightarrow> pc_resp_ok rs' c"
  by (cases c) (use subsetD in fastforce)+

lemma exec_pc_resp:
  assumes "exec_pc c st = Some (c', st')" and "meta_wf (meta st)"
    and "pc_resp_ok (rows (meta st)) c"
  shows "meta_wf (meta st') \<and> set (rows (meta st)) \<subseteq> set (rows (meta st')) \<and>
         pc_resp_ok (rows (meta st')) c'"
proof (cases c)
  case (Put n x)
  with assms show ?thesis by auto
next
  case (ReadMax n)
  with assms show ?thesis by auto
next
  case (Insert t p q)
  with assms show ?thesis
    by (auto simp: case_prod_unfold Let_def meta_wf_insert_row store_simps)
next
  case (ReadBack iid)
  with assms(3) obtain r where r: "r \<in> set (rows (meta st))" and "row_id r = iid" by auto
  with assms(2) have "select_by_id iid (meta st) = [r]" using select_by_id_present by blast
  with ReadBack assms(1,2) r show ?thesis by (auto simp: first_row_def)
next
  case (Done r)
  with assms show ?thesis by simp
qed

lemma act_readback_ok:
  assumes "act b a s = Some s'" and "readback_ok s"
  shows "readback_ok s'"
proof (cases a)
  case (SpawnUpload n c)
  with assms show ?thesis by (auto simp: readback_ok_def)
next
  case (SpawnInsert t p q)
  with assms show ?thesis by (auto simp: readback_ok_def split: if_splits)
next
  case (Run i)
  from assms(1) have "act b (Run i) s = Some s'" unfolding Run .
  then obtain c st where i: "i < length (pcs s)"
    and ex: "exec_pc (pcs s ! i) (store s) = Some (c, st)"
    and s': "s' = \<lparr>store = st, pcs = (pcs s)[i := c]\<rparr>"
    using act_Run_Some by blast
  have all: "\<forall>x\<in>set (pcs s). pc_resp_ok (rows (meta (store s))) x"
    and wf: "meta_wf (meta (store s))"
    using assms(2) by (simp_all add: readback_ok_def)
  have ci: "pc_resp_ok (rows (meta (store s))) (pcs s ! i)"
    using all i nth_mem by blast
  note new = exec_pc_resp [OF ex wf ci]
  have "\<forall>x\<in>set (pcs s). pc_resp_ok (rows (meta st)) x"
  proof
    fix x assume "x \<in> set (pcs s)"
    with all have "pc_resp_ok (rows (meta (store s))) x" by blast
    then show "pc_resp_ok (rows (meta st)) x" using new by (blast intro: pc_resp_ok_mono)
  qed
  then have "\<forall>x\<in>set ((pcs s)[i := c]). pc_resp_ok (rows (meta st)) x"
    using new by (intro ball_set_update) simp_all
  with new s' show ?thesis by (simp add: readback_ok_def)
next
  case (Fail i)
  from assms(1) have "act b (Fail i) s = Some s'" unfolding Fail .
  note f = act_Fail_Some [OF this]
  have "\<forall>x\<in>set (pcs s). pc_resp_ok (rows (meta (store s))) x"
    using assms(2) unfolding readback_ok_def by (rule conjunct2)
  then have "\<forall>x\<in>set ((pcs s)[i := Done store_error]). pc_resp_ok (rows (meta (store s))) x"
    by (rule ball_set_update) (simp add: store_error_def express_resp_def)
  with assms(2) f show ?thesis unfolding readback_ok_def by simp
qed

lemma reach_readback_ok: "reach b s \<Longrightarrow> readback_ok s"
proof (induction rule: reach.induct)
  case init then show ?case by (simp add: readback_ok_def init_sys_def empty_backend_def)
next
  case (step s a s') then show ?case by (blast intro: act_readback_ok)
qed

section \<open>Positions without gaps\<close>

lemma max_position_snoc:
  "max_position (rs @ [r]) =
     (case position r of None \<Rightarrow> max_position rs
      | Some v \<Rightarrow> Some (case max_position rs of None \<Rightarrow> v | Some m \<Rightarrow> max m v))"
  by (induction rs) (auto simp: max_def split: option.splits)

lemma next_position_top: "next_position (max_position rs) = top_pos rs + 1"
  by (simp add: top_pos_def split: option.splits)

lemma max_position_mem: "max_position rs = Some m \<Longrightarrow> m \<in> pos_set rs"
  by (induction rs arbitrary: m) (auto simp: pos_set_def max_def split: option.splits if_splits)

lemma top_pos_nonneg: "rows_gapless rs \<Longrightarrow> 0 \<le> top_pos rs"
proof (cases "max_position rs")
  case None then show ?thesis by (simp add: top_pos_def)
next
  case (Some m)
  assume "rows_gapless rs"
  with Some have "m \<in> {1..top_pos rs}" and "top_pos rs = m"
    using max_position_mem [OF Some] by (auto simp: rows_gapless_def top_pos_def)
  then show ?thesis by simp
qed

lemma pos_set_snoc: "position r = Some v \<Longrightarrow> pos_set (rs @ [r]) = insert v (pos_set rs)"
  by (auto simp: pos_set_def)

lemma top_pos_snoc:
  "position r = Some v \<Longrightarrow> 0 \<le> top_pos rs \<Longrightarrow> 1 \<le> v \<Longrightarrow> top_pos (rs @ [r]) = max (top_pos rs) v"
  by (auto simp: top_pos_def max_position_snoc split: option.splits)

lemma rows_gapless_snoc:
  assumes "rows_gapless rs" and "position r = Some v" and "1 \<le> v" and "v \<le> top_pos rs + 1"
  shows "rows_gapless (rs @ [r]) \<and> top_pos rs \<le> top_pos (rs @ [r])"
proof -
  have t: "0 \<le> top_pos rs" using assms(1) by (rule top_pos_nonneg)
  have top: "top_pos (rs @ [r]) = max (top_pos rs) v" using top_pos_snoc [OF assms(2) t assms(3)] .
  have "insert v {1..top_pos rs} = {1..max (top_pos rs) v}" using assms(3,4) t by auto
  with assms(1,2) top show ?thesis by (auto simp: rows_gapless_def pos_set_snoc)
qed

lemma pc_pos_ok_mono: "pc_pos_ok t c \<Longrightarrow> t \<le> t' \<Longrightarrow> pc_pos_ok t' c"
  by (cases c) auto

lemma exec_pc_gapless:
  assumes "exec_pc c st = Some (c', st')" and "rows_gapless (rows (meta st))"
    and "pc_pos_ok (top_pos (rows (meta st))) c"
  shows "rows_gapless (rows (meta st')) \<and> top_pos (rows (meta st)) \<le> top_pos (rows (meta st')) \<and>
         pc_pos_ok (top_pos (rows (meta st'))) c'"
proof (cases c)
  case (Put n x)
  with assms show ?thesis by auto
next
  case (ReadMax n)
  with assms show ?thesis by (auto simp: next_position_top top_pos_nonneg)
next
  case (Insert t p q)
  with assms(3) obtain v where q: "q = Some v" and v: "1 \<le> v" "v \<le> top_pos (rows (meta st)) + 1"
    by auto
  with Insert assms(1,2) show ?thesis
    using rows_gapless_snoc [OF assms(2), of "\<lparr>row_id = next_id (meta st), title = t, path = p, position = q\<rparr>" v]
    by (auto simp: case_prod_unfold Let_def store_simps)
next
  case (ReadBack i)
  with assms show ?thesis by auto
next
  case (Done r)
  with assms show ?thesis by simp
qed

lemma act_gapless:
  assumes "act False a s = Some s'" and "gapless s"
  shows "gapless s'"
proof (cases a)
  case (SpawnUpload n c)
  with assms show ?thesis by (auto simp: gapless_def)
next
  case (SpawnInsert t p q)
  with assms show ?thesis by simp
next
  case (Run i)
  from assms(1) have "act False (Run i) s = Some s'" unfolding Run .
  then obtain c st where i: "i < length (pcs s)"
    and ex: "exec_pc (pcs s ! i) (store s) = Some (c, st)"
    and s': "s' = \<lparr>store = st, pcs = (pcs s)[i := c]\<rparr>"
    using act_Run_Some by blast
  have all: "\<forall>x\<in>set (pcs s). pc_pos_ok (top_pos (rows (meta (store s)))) x"
    and g: "rows_gapless (rows (meta (store s)))"
    using assms(2) by (simp_all add: gapless_def)
  have ci: "pc_pos_ok (top_pos (rows (meta (store s)))) (pcs s ! i)"
    using all i nth_mem by blast
  note new = exec_pc_gapless [OF ex g ci]
  have "\<forall>x\<in>set (pcs s). pc_pos_ok (top_pos (rows (meta st))) x"
  proof
    fix x assume "x \<in> set (pcs s)"
    with all have "pc_pos_ok (top_pos (rows (meta (store s)))) x" by blast
    then show "pc_pos_ok (top_pos (rows (meta st))) x" using new by (blast intro: pc_pos_ok_mono)
  qed
  then have "\<forall>x\<in>set ((pcs s)[i := c]). pc_pos_ok (top_pos (rows (meta st))) x"
    using new by (intro ball_set_update) simp_all
  with new s' show ?thesis by (simp add: gapless_def)
next
  case (Fail i)
  from assms(1) have "act False (Fail i) s = Some s'" unfolding Fail .
  note f = act_Fail_Some [OF this]
  have "\<forall>x\<in>set (pcs s). pc_pos_ok (top_pos (rows (meta (store s)))) x"
    using assms(2) unfolding gapless_def by (rule conjunct2)
  then have "\<forall>x\<in>set ((pcs s)[i := Done store_error]). pc_pos_ok (top_pos (rows (meta (store s)))) x"
    by (rule ball_set_update) simp
  with assms(2) f show ?thesis unfolding gapless_def by simp
qed

lemma reach_gapless: "reach False s \<Longrightarrow> gapless s"
proof (induction rule: reach.induct)
  case init then show ?case
    by (simp add: gapless_def rows_gapless_def pos_set_def top_pos_def init_sys_def
        empty_backend_def empty_meta_def)
next
  case (step s a s') then show ?case by (blast intro: act_gapless)
qed

section \<open>Termination of the interleaving\<close>








section \<open>Properties of interleaved requests\<close>

lemmas sys_eval = init_sys_def empty_backend_def empty_meta_def put_file_contents_def
  music_dir_def insert_row_def select_by_id_def first_row_def

text \<open>
  C15. Under any interleaving of uploads, with any of their store calls failing,
  every stored row names a path whose file is in the blob store: the blob is
  written before the row, and nothing deletes it.
\<close>

theorem upload_rows_backed:
  assumes "reach False s" and "r \<in> set (rows (meta (store s)))"
  shows "\<exists>p. path r = Some p \<and> p \<in> dom (blobs (store s))"
  using reach_blob_backed [OF assms(1)] assms(2) unfolding blob_backed_def by blast

theorem upload_rows_backed_witness:
  "reach False (the (run_actions False [SpawnUpload ''a.mp3'' [1], Run 0, Run 0, Run 0, Run 0] init_sys)) \<and>
   \<lparr>row_id = 1, title = Some ''a.mp3'', path = Some ''/music/a.mp3'', position = Some 1\<rparr>
     \<in> set (rows (meta (store (the (run_actions False
          [SpawnUpload ''a.mp3'' [1], Run 0, Run 0, Run 0, Run 0] init_sys))))) \<and>
   (\<exists>p. Some ''/music/a.mp3'' = Some p \<and> p \<in> dom (blobs (store (the (run_actions False
          [SpawnUpload ''a.mp3'' [1], Run 0, Run 0, Run 0, Run 0] init_sys)))))"
proof -
  let ?S = "the (run_actions False [SpawnUpload ''a.mp3'' [1], Run 0, Run 0, Run 0, Run 0] init_sys)"
  have e: "run_actions False [SpawnUpload ''a.mp3'' [1], Run 0, Run 0, Run 0, Run 0] init_sys = Some ?S"
    by (simp add: sys_eval)
  have r: "reach False ?S" using reach_run_actions [OF e reach.init] .
  have m: "\<lparr>row_id = 1, title = Some ''a.mp3'', path = Some ''/music/a.mp3'', position = Some 1\<rparr>
     \<in> set (rows (meta (store ?S)))"
    by (simp add: sys_eval)
  show ?thesis using upload_rows_backed [OF r m] r m by simp
qed

text \<open>
  C16. Under any interleaving of uploads from an empty playlist, with any store
  calls failing, every row has a position and the positions present are exactly
  \<open>1..n\<close> for some \<open>n\<close>: the race may repeat a position but never skips one.
\<close>

theorem upload_positions_gapless:
  assumes "reach False s"
  shows "(\<forall>r\<in>set (rows (meta (store s))). position r \<noteq> None) \<and>
         (\<exists>n. {v. \<exists>r\<in>set (rows (meta (store s))). position r = Some v} = {1..n})"
  using reach_gapless [OF assms] unfolding gapless_def rows_gapless_def pos_set_def by blast

theorem upload_positions_gapless_witness:
  "reach False (the (run_actions False [SpawnUpload ''a'' [1], SpawnUpload ''b'' [2], Run 0, Run 1,
      Run 0, Run 1, Run 0, Run 1] init_sys)) \<and>
   (\<exists>n. {v. \<exists>r\<in>set (rows (meta (store (the (run_actions False [SpawnUpload ''a'' [1],
      SpawnUpload ''b'' [2], Run 0, Run 1, Run 0, Run 1, Run 0, Run 1] init_sys))))). position r = Some v}
      = {1..n})"
proof -
  let ?S = "the (run_actions False [SpawnUpload ''a'' [1], SpawnUpload ''b'' [2], Run 0, Run 1,
      Run 0, Run 1, Run 0, Run 1] init_sys)"
  have e: "run_actions False [SpawnUpload ''a'' [1], SpawnUpload ''b'' [2], Run 0, Run 1,
      Run 0, Run 1, Run 0, Run 1] init_sys = Some ?S"
    by (simp add: sys_eval)
  have r: "reach False ?S" using reach_run_actions [OF e reach.init] .
  show ?thesis using upload_positions_gapless [OF r] r by blast
qed

text \<open>
  C17. Under any interleaving of uploads and direct inserts, with any store calls
  failing, every request answered with status 200 returns a stored row: the
  read-back by \<open>insertId\<close> always finds the row, never \<open>undefined\<close>.
\<close>

theorem success_response_names_row:
  assumes "reach b s" and "Done resp \<in> set (pcs s)" and "status resp = 200"
  shows "\<exists>r\<in>set (rows (meta (store s))). resp = express_resp 200 (BJson (JRow r))"
  using reach_readback_ok [OF assms(1)] assms(2,3) unfolding readback_ok_def by fastforce

theorem success_response_names_row_witness:
  "reach True (the (run_actions True [SpawnInsert (Some ''t'') (Some ''/music/t'') (Some 3), Run 0, Run 0]
      init_sys)) \<and>
   Done (express_resp 200 (BJson (JRow \<lparr>row_id = 1, title = Some ''t'', path = Some ''/music/t'',
      position = Some 3\<rparr>))) \<in> set (pcs (the (run_actions True [SpawnInsert (Some ''t'')
      (Some ''/music/t'') (Some 3), Run 0, Run 0] init_sys))) \<and>
   status (express_resp 200 (BJson (JRow \<lparr>row_id = 1, title = Some ''t'', path = Some ''/music/t'',
      position = Some 3\<rparr>))) = 200"
proof -
  let ?S = "the (run_actions True [SpawnInsert (Some ''t'') (Some ''/music/t'') (Some 3), Run 0, Run 0]
      init_sys)"
  let ?resp = "express_resp 200 (BJson (JRow \<lparr>row_id = 1, title = Some ''t'', path = Some ''/music/t'',
      position = Some 3\<rparr>))"
  have e: "run_actions True [SpawnInsert (Some ''t'') (Some ''/music/t'') (Some 3), Run 0, Run 0]
      init_sys = Some ?S"
    by (simp add: sys_eval)
  have r: "reach True ?S" using reach_run_actions [OF e reach.init] .
  have d: "Done ?resp \<in> set (pcs ?S)" by (simp add: sys_eval)
  have st: "status ?resp = 200" by (simp add: express_resp_def)
  show ?thesis using success_response_names_row [OF r d st] r d st by blast
qed

text \<open>
  C18. The position race of the spec is real: two uploads into an empty playlist
  that both read \<open>MAX(position)\<close> before either inserts store two rows with the
  same position.
\<close>

theorem race_duplicate_positions:
  "\<exists>s. reach False s \<and>
     (\<exists>r1\<in>set (rows (meta (store s))). \<exists>r2\<in>set (rows (meta (store s))).
        row_id r1 \<noteq> row_id r2 \<and> position r1 = position r2)"
proof -
  let ?S = "the (run_actions False [SpawnUpload ''a'' [1], SpawnUpload ''b'' [2], Run 0, Run 1,
      Run 0, Run 1, Run 0, Run 1] init_sys)"
  have e: "run_actions False [SpawnUpload ''a'' [1], SpawnUpload ''b'' [2], Run 0, Run 1,
      Run 0, Run 1, Run 0, Run 1] init_sys = Some ?S"
    by (simp add: sys_eval)
  have r: "reach False ?S" using reach_run_actions [OF e reach.init] .
  have "rows (meta (store ?S)) =
     [\<lparr>row_id = 1, title = Some ''a'', path = Some ''/music/a'', position = Some 1\<rparr>,
      \<lparr>row_id = 2, title = Some ''b'', path = Some ''/music/b'', position = Some 1\<rparr>]"
    by (simp add: sys_eval)
  with r show ?thesis by (intro exI [of _ ?S]) auto
qed

text \<open>
  C19. The spec's invariant that every track's path has a stored file does not
  hold for the program: \<open>POST /api/playlist\<close> inserts any path without writing
  a file, so a reachable state has a row whose file does not exist.
\<close>

theorem direct_insert_row_without_file:
  "\<exists>s. reach True s \<and>
     (\<exists>r\<in>set (rows (meta (store s))). \<not> (\<exists>p. path r = Some p \<and> p \<in> dom (blobs (store s))))"
proof -
  let ?S = "the (run_actions True [SpawnInsert (Some ''t'') (Some ''/music/none.mp3'') (Some 1), Run 0]
      init_sys)"
  have e: "run_actions True [SpawnInsert (Some ''t'') (Some ''/music/none.mp3'') (Some 1), Run 0]
      init_sys = Some ?S"
    by (simp add: sys_eval)
  have r: "reach True ?S" using reach_run_actions [OF e reach.init] .
  have "rows (meta (store ?S)) =
     [\<lparr>row_id = 1, title = Some ''t'', path = Some ''/music/none.mp3'', position = Some 1\<rparr>]"
    and "blobs (store ?S) = Map.empty"
    by (simp_all add: sys_eval)
  with r show ?thesis by (intro exI [of _ ?S]) auto
qed








end
