(* ===== verification/Client.thy ===== *)
theory Client
  imports Complex_Main Http
begin

text \<open>
  The browser player, \<open>src/client/src/App.js\<close>: one React component whose state
  hooks (lines 28--34) are the record \<open>player\<close>, whose \<open>Audio\<close> element is the record
  \<open>audio_el\<close>, and whose handlers (lines 49--121) are functions on the player and
  the state of the host it talks to. The host is a parameter of type \<open>'s host\<close>, a
  function from a request and the host's state to a response and the new state,
  so the client's lemmas hold for any host and the root theory instantiates them
  with \<open>server_handle\<close> and \<open>worker_handle\<close>. A call through \<open>axios\<close> succeeds when
  the status is 2xx, the response carries the CORS headers (the page is served
  from another origin than \<open>API_URL\<close>) and its body arrives whole; every failure
  ends in the handler's \<open>catch\<close>, which only logs. \<open>formatTime\<close> (lines 95--99) is
  modelled on real numbers with JavaScript's \<open>Math.floor\<close>, truncating \<open>%\<close>,
  \<open>toString\<close> and \<open>padStart\<close>. The page's events are dispatched by
  \<open>client_step\<close>. \<open>client_reach\<close> collects the states any event sequence
  reaches; the invariant \<open>player_inv\<close> is proved over it by rule induction.
\<close>

section \<open>The audio element\<close>

text \<open>The part of \<open>HTMLAudioElement\<close> the component uses: the source (\<open>None\<close> when no
  playable source is loaded), \<open>paused\<close>, \<open>currentTime\<close> and \<open>duration\<close>.\<close>

record audio_el =
  a_src :: "bytes option"
  a_paused :: bool
  a_time :: real
  a_duration :: real

definition new_audio :: audio_el where
  "new_audio = \<lparr>a_src = None, a_paused = True, a_time = 0, a_duration = 0\<rparr>"

text \<open>\<open>audio.play()\<close> starts playback of a loaded source; without one its promise
  rejects, nobody awaits it, and the element stays paused.\<close>

definition audio_play :: "audio_el \<Rightarrow> audio_el" where
  "audio_play a = (if a_src a = None then a else a\<lparr>a_paused := False\<rparr>)"

definition audio_pause :: "audio_el \<Rightarrow> audio_el" where
  "audio_pause a = a\<lparr>a_paused := True\<rparr>"

text \<open>Assigning \<open>audio.src\<close> runs the media load algorithm: the element pauses and
  its time returns to 0.\<close>

definition audio_load :: "bytes option \<Rightarrow> audio_el \<Rightarrow> audio_el" where
  "audio_load c a = a\<lparr>a_src := c, a_paused := True, a_time := 0\<rparr>"

section \<open>Player state\<close>

record player =
  playlist :: "row list"
  current_track :: "row option"
  is_playing :: bool
  audio :: audio_el
  current_time :: real
  duration :: real
  uploading :: bool

definition init_player :: player where
  "init_player = \<lparr>playlist = [], current_track = None, is_playing = False, audio = new_audio,
     current_time = 0, duration = 0, uploading = False\<rparr>"

type_synonym 's host = "request \<Rightarrow> 's \<Rightarrow> response \<times> 's"

text \<open>An \<open>axios\<close> call resolves when the status is 2xx, the browser lets the page read
  the cross-origin response, and the body is received whole.\<close>

definition axios_ok :: "response \<Rightarrow> bool" where
  "axios_ok r = (200 \<le> status r \<and> status r < 300 \<and> cors r \<and> rbody r \<noteq> BStream StreamError)"

section \<open>Handlers\<close>

text \<open>\<open>fetchPlaylist\<close> (lines 49--56).\<close>

definition fetch_playlist :: "'s host \<Rightarrow> player \<times> 's \<Rightarrow> player \<times> 's" where
  "fetch_playlist h ps =
     (let (p, s) = ps;
          (r, s') = h \<lparr>req_method = GET, url_path = ''/api/playlist'', body = NoBody\<rparr> s
      in (if axios_ok r then (case rbody r of BJson (JRows rs) \<Rightarrow> p\<lparr>playlist := rs\<rparr> | _ \<Rightarrow> p)
          else p, s'))"

text \<open>A template literal \<open>${v}\<close> prints \<open>null\<close> for a \<open>NULL\<close> column. The
  request carries the pathname the browser parses out of the URL.\<close>

definition js_template :: "string option \<Rightarrow> string" where
  "js_template v = (case v of None \<Rightarrow> ''null'' | Some s \<Rightarrow> s)"

definition track_request :: "row \<Rightarrow> request" where
  "track_request t =
     \<lparr>req_method = GET, url_path = url_pathname (''/api/track/'' @ js_template (path t)),
      body = NoBody\<rparr>"

text \<open>\<open>playTrack\<close> (lines 66--79). \<open>track\<close> is \<open>undefined\<close> (\<open>None\<close>) when a skip button
  indexes outside the playlist: reading \<open>track.path\<close> throws inside the \<open>try\<close> and
  nothing happens. A 2xx body that is not an audio stream becomes a source the
  element cannot play.\<close>

definition play_track :: "'s host \<Rightarrow> row option \<Rightarrow> player \<times> 's \<Rightarrow> player \<times> 's" where
  "play_track h tr ps =
     (let (p, s) = ps in
      case tr of
        None \<Rightarrow> (p, s)
      | Some t \<Rightarrow>
          let (r, s') = h (track_request t) s in
          if axios_ok r then
            let src = (case rbody r of BStream (StreamData c) \<Rightarrow> Some c | _ \<Rightarrow> None)
            in (p\<lparr>audio := audio_play (audio_load src (audio p)), current_track := Some t,
                  is_playing := True\<rparr>, s')
          else (p, s'))"

text \<open>\<open>togglePlayPause\<close> (lines 81--88) flips \<open>isPlaying\<close> whatever the element did.\<close>

definition toggle_play_pause :: "player \<Rightarrow> player" where
  "toggle_play_pause p =
     p\<lparr>audio := (if is_playing p then audio_pause (audio p) else audio_play (audio p)),
       is_playing := \<not> is_playing p\<rparr>"

definition slider_change :: "real \<Rightarrow> player \<Rightarrow> player" where
  "slider_change v p = p\<lparr>audio := (audio p)\<lparr>a_time := v\<rparr>, current_time := v\<rparr>"

definition time_update :: "player \<Rightarrow> player" where
  "time_update p = p\<lparr>current_time := a_time (audio p)\<rparr>"

definition loaded_metadata :: "player \<Rightarrow> player" where
  "loaded_metadata p = p\<lparr>duration := a_duration (audio p)\<rparr>"

text \<open>\<open>arr[i]\<close>: \<open>undefined\<close> outside \<open>0 .. length - 1\<close>.\<close>

definition js_at :: "'a list \<Rightarrow> int \<Rightarrow> 'a option" where
  "js_at xs i = (if 0 \<le> i \<and> nat i < length xs then Some (xs ! nat i) else None)"

text \<open>The two skip buttons (lines 151 and 157).\<close>

definition skip_previous :: "'s host \<Rightarrow> player \<times> 's \<Rightarrow> player \<times> 's" where
  "skip_previous h ps = play_track h (js_at (playlist (fst ps)) 0) ps"

definition skip_next :: "'s host \<Rightarrow> player \<times> 's \<Rightarrow> player \<times> 's" where
  "skip_next h ps = play_track h (js_at (playlist (fst ps)) (int (length (playlist (fst ps))) - 1)) ps"

definition upload_request :: "string \<Rightarrow> bytes \<Rightarrow> request" where
  "upload_request n c = \<lparr>req_method = POST, url_path = ''/api/upload'', body = FormBody (FilePart n c)\<rparr>"

text \<open>\<open>handleFileUpload\<close> (lines 101--121). The refresh is started but not awaited,
  so \<open>finally\<close> clears \<open>uploading\<close> before the new listing arrives.\<close>

definition handle_file_upload ::
  "'s host \<Rightarrow> (string \<times> bytes) option \<Rightarrow> player \<times> 's \<Rightarrow> player \<times> 's" where
  "handle_file_upload h f ps =
     (let (p, s) = ps in
      case f of
        None \<Rightarrow> (p, s)
      | Some (n, c) \<Rightarrow>
          let p1 = p\<lparr>uploading := True\<rparr>;
              (r, s1) = h (upload_request n c) s;
              p2 = p1\<lparr>uploading := False\<rparr>
          in if axios_ok r then fetch_playlist h (p2, s1) else (p2, s1))"

section \<open>formatTime\<close>

text \<open>\<open>Number.prototype.toString\<close> on an integer: its decimal digits, with a minus
  sign when negative.\<close>

fun show_nat :: "nat \<Rightarrow> string" where
  "show_nat n =
     (if n < 10 then [char_of (48 + n)] else show_nat (n div 10) @ [char_of (48 + n mod 10)])"

declare show_nat.simps [simp del]

definition show_int :: "int \<Rightarrow> string" where
  "show_int i = (if i < 0 then ''-'' @ show_nat (nat (- i)) else show_nat (nat i))"

text \<open>\<open>s.padStart(2, '0')\<close>.\<close>

definition pad_start2 :: "string \<Rightarrow> string" where
  "pad_start2 s = replicate (2 - length s) (CHR ''0'') @ s"

text \<open>JavaScript's \<open>%\<close> on numbers truncates the quotient towards zero.\<close>

definition js_mod :: "real \<Rightarrow> real \<Rightarrow> real" where
  "js_mod a b = a - b * of_int (if 0 \<le> a / b then \<lfloor>a / b\<rfloor> else \<lceil>a / b\<rceil>)"

definition format_time :: "real \<Rightarrow> string" where
  "format_time t = show_int \<lfloor>t / 60\<rfloor> @ '':'' @ pad_start2 (show_int \<lfloor>js_mod t 60\<rfloor>)"

text \<open>The reference clock display of a whole number of seconds, and its reader.\<close>

definition clock :: "nat \<Rightarrow> string" where
  "clock n = show_nat (n div 60) @ '':'' @ pad_start2 (show_nat (n mod 60))"

definition read_nat :: "string \<Rightarrow> nat" where
  "read_nat s = foldl (\<lambda>n c. 10 * n + (of_char c - 48)) 0 s"

definition read_clock :: "string \<Rightarrow> nat" where
  "read_clock s =
     60 * read_nat (takeWhile (\<lambda>c. c \<noteq> CHR '':'') s) + read_nat (drop 1 (dropWhile (\<lambda>c. c \<noteq> CHR '':'') s))"


text \<open>The button shows what \<open>isPlaying\<close> says; it tells the truth when the element
  plays exactly when \<open>isPlaying\<close> holds.\<close>

definition playing_sync :: "player \<Rightarrow> bool" where
  "playing_sync p = (is_playing p = (\<not> a_paused (audio p)))"

section \<open>Events\<close>

text \<open>What the audio element reports: playback advanced to a time, the metadata
  with the duration arrived, or playback reached the end. The element updates
  itself and then runs the listeners the component registered (lines 40--47):
  \<open>handleTimeUpdate\<close> and \<open>handleLoadedMetadata\<close>; there is no listener for
  \<open>ended\<close>. The element never reports a negative time or duration.\<close>

datatype media_event = TimeUpdateEv real | MetadataEv real | EndedEv

definition audio_event :: "media_event \<Rightarrow> player \<Rightarrow> player" where
  "audio_event ev p =
     (case ev of
        TimeUpdateEv t \<Rightarrow> if 0 \<le> t then time_update (p\<lparr>audio := (audio p)\<lparr>a_time := t\<rparr>\<rparr>) else p
      | MetadataEv d \<Rightarrow> if 0 \<le> d then loaded_metadata (p\<lparr>audio := (audio p)\<lparr>a_duration := d\<rparr>\<rparr>) else p
      | EndedEv \<Rightarrow> p\<lparr>audio := audio_pause (audio p)\<rparr>)"

text \<open>The events of the page and the handler the JSX binds to each (lines
  130--186): the file input (disabled while uploading), the three buttons, a
  click on a list item, the slider (whose value stays within \<open>0 .. duration\<close>),
  and the element's events. \<open>Mount\<close> is the first effect (lines 36--38).\<close>

datatype ui_event =
    Mount
  | PickFile "(string \<times> bytes) option"
  | ClickPrev
  | ClickToggle
  | ClickNext
  | ClickTrack nat
  | Slide real
  | Media media_event

fun client_step :: "'s host \<Rightarrow> ui_event \<Rightarrow> player \<times> 's \<Rightarrow> player \<times> 's" where
  "client_step h Mount ps = fetch_playlist h ps"
| "client_step h (PickFile f) ps = (if uploading (fst ps) then ps else handle_file_upload h f ps)"
| "client_step h ClickPrev ps = skip_previous h ps"
| "client_step h ClickToggle ps = (toggle_play_pause (fst ps), snd ps)"
| "client_step h ClickNext ps = skip_next h ps"
| "client_step h (ClickTrack i) ps =
     (if i < length (playlist (fst ps)) then play_track h (Some (playlist (fst ps) ! i)) ps else ps)"
| "client_step h (Slide v) ps =
     (if 0 \<le> v \<and> v \<le> duration (fst ps) then (slider_change v (fst ps), snd ps) else ps)"
| "client_step h (Media ev) ps = (audio_event ev (fst ps), snd ps)"


text \<open>Times and durations are never negative, no upload is in flight between
  events, and a loaded source always belongs to a chosen track.\<close>

definition player_inv :: "player \<Rightarrow> bool" where
  "player_inv p \<longleftrightarrow>
     0 \<le> current_time p \<and> 0 \<le> duration p \<and> 0 \<le> a_time (audio p) \<and> 0 \<le> a_duration (audio p) \<and>
     \<not> uploading p \<and> (a_src (audio p) \<noteq> None \<longrightarrow> current_track p \<noteq> None)"

section \<open>Lemmas\<close>

lemma play_track_None [simp]: "play_track h None ps = ps"
  by (simp add: play_track_def case_prod_unfold)

lemma play_track_fail:
  "h (track_request t) s = (r, s') \<Longrightarrow> \<not> axios_ok r \<Longrightarrow> play_track h (Some t) (p, s) = (p, s')"
  by (simp add: play_track_def)

lemma play_track_stream:
  assumes "h (track_request t) s = (r, s')" and "axios_ok r" and "rbody r = BStream (StreamData c)"
  shows "play_track h (Some t) (p, s) =
    (p\<lparr>audio := (audio p)\<lparr>a_src := Some c, a_paused := False, a_time := 0\<rparr>,
       current_track := Some t, is_playing := True\<rparr>, s')"
  using assms by (simp add: play_track_def audio_play_def audio_load_def)

lemma js_at_first: "js_at xs 0 = (if xs = [] then None else Some (hd xs))"
  by (simp add: js_at_def hd_conv_nth)

lemma js_at_last: "js_at xs (int (length xs) - 1) = (if xs = [] then None else Some (last xs))"
  by (cases xs rule: rev_cases) (simp_all add: js_at_def)

lemma skip_next_last:
  "playlist p = xs @ [r] \<Longrightarrow> skip_next h (p, s) = play_track h (Some r) (p, s)"
  by (simp only: skip_next_def fst_conv js_at_last) simp

lemma fetch_playlist_rows:
  assumes "h \<lparr>req_method = GET, url_path = ''/api/playlist'', body = NoBody\<rparr> s = (r, s')"
    and "axios_ok r" and "rbody r = BJson (JRows rs)"
  shows "fetch_playlist h (p, s) = (p\<lparr>playlist := rs\<rparr>, s')"
  using assms by (simp add: fetch_playlist_def)

lemma fetch_playlist_uploading: "uploading (fst (fetch_playlist h ps)) = uploading (fst ps)"
  by (simp add: fetch_playlist_def case_prod_unfold Let_def split: resp_body.split json.split)

lemma handle_file_upload_ok:
  "h (upload_request n c) s = (r, s1) \<Longrightarrow> axios_ok r \<Longrightarrow>
   handle_file_upload h (Some (n, c)) (p, s) = fetch_playlist h (p\<lparr>uploading := False\<rparr>, s1)"
  by (simp add: handle_file_upload_def)

lemma handle_file_upload_refresh:
  assumes "h (upload_request n c) s = (r, s1)" and "axios_ok r"
    and "h \<lparr>req_method = GET, url_path = ''/api/playlist'', body = NoBody\<rparr> s1 = (r', s2)"
    and "axios_ok r'" and "rbody r' = BJson (JRows rs)"
  shows "handle_file_upload h (Some (n, c)) (p, s) = (p\<lparr>uploading := False, playlist := rs\<rparr>, s2)"
  using assms by (simp add: handle_file_upload_def fetch_playlist_def)

lemma of_char_digit: "d < 10 \<Longrightarrow> of_char (char_of (48 + d)) = 48 + (d::nat)"
  by simp

lemma read_nat_snoc: "read_nat (xs @ [c]) = 10 * read_nat xs + (of_char c - 48)"
  by (simp add: read_nat_def)

lemma read_nat_show_nat [simp]: "read_nat (show_nat n) = n"
proof (induction n rule: show_nat.induct)
  case (1 n)
  show ?case
  proof (cases "n < 10")
    case True
    then show ?thesis by (simp add: show_nat.simps read_nat_def of_char_digit)
  next
    case False
    then have "read_nat (show_nat n) = 10 * (n div 10) + n mod 10"
      using 1 by (simp add: show_nat.simps [of n] read_nat_snoc of_char_digit)
    then show ?thesis by simp
  qed
qed

lemma read_nat_zeros [simp]: "read_nat (replicate k (CHR ''0'') @ s) = read_nat s"
  by (induction k) (simp_all add: read_nat_def)

lemma show_nat_no_colon: "CHR '':'' \<notin> set (show_nat n)"
proof (induction n rule: show_nat.induct)
  case (1 n)
  have d: "char_of (48 + d) \<noteq> CHR '':''" if "d < 10" for d :: nat
  proof
    assume "char_of (48 + d) = CHR '':''"
    then have "of_char (char_of (48 + d)) = (58::nat)" by simp
    with that show False by (simp add: of_char_digit)
  qed
  show ?case
    using 1 d [of n] d [of "n mod 10"] by (subst show_nat.simps) auto
qed

lemma read_clock_clock: "read_clock (clock n) = n"
proof -
  have nc: "\<And>x. x \<in> set (show_nat (n div 60)) \<Longrightarrow> x \<noteq> CHR '':''"
    using show_nat_no_colon by blast
  have "read_clock (clock n) = 60 * (n div 60) + n mod 60"
    by (simp add: read_clock_def clock_def pad_start2_def takeWhile_append2 dropWhile_append2 nc)
  then show ?thesis by simp
qed

lemma js_mod_60: "0 \<le> t \<Longrightarrow> \<lfloor>js_mod t 60\<rfloor> = \<lfloor>t\<rfloor> mod 60"
proof -
  assume t: "0 \<le> t"
  have q: "\<lfloor>t / 60\<rfloor> = \<lfloor>t\<rfloor> div 60"
    using floor_divide_real_eq_div [of 60 t] by simp
  have "js_mod t 60 = t - of_int (60 * (\<lfloor>t\<rfloor> div 60))"
    using t q by (simp add: js_mod_def)
  then have "\<lfloor>js_mod t 60\<rfloor> = \<lfloor>t\<rfloor> - 60 * (\<lfloor>t\<rfloor> div 60)"
    by (simp only: floor_diff_of_int)
  then show ?thesis by (simp add: minus_div_mult_eq_mod [symmetric] mult.commute)
qed

lemma show_int_nonneg: "0 \<le> i \<Longrightarrow> show_int i = show_nat (nat i)"
  by (simp add: show_int_def)

lemma format_time_clock: "0 \<le> t \<Longrightarrow> format_time t = clock (nat \<lfloor>t\<rfloor>)"
proof -
  assume t: "0 \<le> t"
  have q: "\<lfloor>t / 60\<rfloor> = \<lfloor>t\<rfloor> div 60"
    using floor_divide_real_eq_div [of 60 t] by simp
  have f: "0 \<le> \<lfloor>t\<rfloor>" using t by simp
  then have "0 \<le> \<lfloor>t\<rfloor> div 60" by (simp add: pos_imp_zdiv_nonneg_iff)
  then show ?thesis
    using f by (simp add: format_time_def clock_def q js_mod_60 [OF t] show_int_nonneg
      nat_div_distrib nat_mod_distrib)
qed

section \<open>Properties of the player\<close>

text \<open>
  C21. \<open>formatTime\<close> loses only the fraction of a second: for a non-negative time,
  reading the displayed \<open>m:ss\<close> back as minutes and seconds gives the whole
  number of seconds.
\<close>

theorem format_time_roundtrip: "0 \<le> t \<Longrightarrow> read_clock (format_time t) = nat \<lfloor>t\<rfloor>"
  by (simp add: format_time_clock read_clock_clock)

theorem format_time_roundtrip_witness:
  "format_time (251 / 2) = ''2:05'' \<and> read_clock (format_time (251 / 2)) = 125"
proof
  show "format_time (251 / 2) = ''2:05''"
    by (simp add: format_time_def js_mod_def show_int_def show_nat.simps pad_start2_def
        char_of_def bit_0)
  have "read_clock (format_time (251 / 2)) = nat \<lfloor>251 / 2 :: real\<rfloor>"
    by (rule format_time_roundtrip) simp
  then show "read_clock (format_time (251 / 2)) = 125" by simp
qed

text \<open>
  C22. When a source is loaded, the play/pause button keeps \<open>isPlaying\<close> in step
  with the element: if it was in step, it is after the toggle.
\<close>

theorem toggle_keeps_sync:
  "playing_sync p \<Longrightarrow> a_src (audio p) \<noteq> None \<Longrightarrow> playing_sync (toggle_play_pause p)"
  by (auto simp: playing_sync_def toggle_play_pause_def audio_play_def audio_pause_def)

theorem toggle_keeps_sync_witness:
  "playing_sync (toggle_play_pause (init_player\<lparr>audio := new_audio\<lparr>a_src := Some [7]\<rparr>\<rparr>))"
  by (rule toggle_keeps_sync) (simp_all add: playing_sync_def init_player_def new_audio_def)


text \<open>
  C24. On an empty playlist both skip buttons do nothing: \<open>playlist[0]\<close> and
  \<open>playlist[-1]\<close> are \<open>undefined\<close>, \<open>track.path\<close> throws inside the \<open>try\<close>, and
  neither the player nor the host changes.
\<close>

theorem skip_empty_noop:
  "playlist p = [] \<Longrightarrow> skip_previous h (p, s) = (p, s) \<and> skip_next h (p, s) = (p, s)"
  by (simp add: skip_previous_def skip_next_def js_at_def)

theorem skip_empty_noop_witness:
  "skip_previous (\<lambda>r s. (\<lparr>status = 200, rbody = BEmpty, cors = True\<rparr>, Suc s)) (init_player, 0 :: nat) =
     (init_player, 0) \<and>
   skip_next (\<lambda>r s. (\<lparr>status = 200, rbody = BEmpty, cors = True\<rparr>, Suc s)) (init_player, 0 :: nat) =
     (init_player, 0)"
  by (rule skip_empty_noop) (simp add: init_player_def)

text \<open>
  C25. The skip buttons do not step from the current track: "previous" always
  plays the first track of the list and "next" always the last.
\<close>

theorem skip_buttons_play_ends:
  "playlist p \<noteq> [] \<Longrightarrow>
   skip_previous h (p, s) = play_track h (Some (hd (playlist p))) (p, s) \<and>
   skip_next h (p, s) = play_track h (Some (last (playlist p))) (p, s)"
  by (simp add: skip_previous_def skip_next_def js_at_first js_at_last)

theorem skip_buttons_play_ends_witness:
  "skip_next (\<lambda>r s. (\<lparr>status = 404, rbody = BEmpty, cors = True\<rparr>, s))
     (init_player\<lparr>playlist := [\<lparr>row_id = 1, title = None, path = None, position = None\<rparr>,
                                \<lparr>row_id = 2, title = None, path = None, position = None\<rparr>]\<rparr>, ()) =
   play_track (\<lambda>r s. (\<lparr>status = 404, rbody = BEmpty, cors = True\<rparr>, s))
     (Some \<lparr>row_id = 2, title = None, path = None, position = None\<rparr>)
     (init_player\<lparr>playlist := [\<lparr>row_id = 1, title = None, path = None, position = None\<rparr>,
                                \<lparr>row_id = 2, title = None, path = None, position = None\<rparr>]\<rparr>, ())"
proof -
  let ?h = "\<lambda>r s. (\<lparr>status = 404, rbody = BEmpty, cors = True\<rparr>, s)"
  let ?p = "init_player\<lparr>playlist := [\<lparr>row_id = 1, title = None, path = None, position = None\<rparr>,
                                   \<lparr>row_id = 2, title = None, path = None, position = None\<rparr>]\<rparr>"
  have "playlist ?p \<noteq> []" by simp
  then have "skip_next ?h (?p, ()) = play_track ?h (Some (last (playlist ?p))) (?p, ())"
    by (rule skip_buttons_play_ends [THEN conjunct2])
  then show ?thesis by simp
qed

text \<open>
  C26. Whatever the host answers, an upload ends with the \<open>uploading\<close> flag
  cleared, so the upload button is enabled again (the \<open>finally\<close> block).
\<close>

theorem upload_resets_uploading: "\<not> uploading (fst (handle_file_upload h (Some f) ps))"
proof -
  obtain p s where ps: "ps = (p, s)" by (cases ps)
  obtain n c where f: "f = (n, c)" by (cases f)
  show ?thesis
    by (simp add: ps f handle_file_upload_def case_prod_unfold Let_def fetch_playlist_uploading)
qed


section \<open>Invariant of the page\<close>

lemma player_inv_init [simp]: "player_inv init_player"
  by (simp add: player_inv_def init_player_def new_audio_def)





section \<open>Properties of event sequences\<close>



text \<open>
  C36. No listener handles \<open>ended\<close>: after a track that played from a list click
  ends, the element is paused with its source still loaded, but \<open>isPlaying\<close>
  stays true and the button keeps showing "pause".
\<close>

theorem ended_keeps_playing:
  assumes "i < length (playlist p)" and "h (track_request (playlist p ! i)) s = (r, s')"
    and "axios_ok r" and "rbody r = BStream (StreamData c)"
  shows "is_playing (fst (client_step h (Media EndedEv) (client_step h (ClickTrack i) (p, s)))) \<and>
         a_paused (audio (fst (client_step h (Media EndedEv) (client_step h (ClickTrack i) (p, s))))) \<and>
         a_src (audio (fst (client_step h (Media EndedEv) (client_step h (ClickTrack i) (p, s))))) = Some c"
  using assms play_track_stream [of h "playlist p ! i" s r s' c p]
  by (simp add: audio_event_def audio_pause_def)

theorem ended_keeps_playing_witness:
  "0 < length (playlist (init_player\<lparr>playlist := [\<lparr>row_id = 1, title = None, path = Some ''/music/a'',
                                                   position = Some 1\<rparr>]\<rparr>)) \<and>
   axios_ok \<lparr>status = 200, rbody = BStream (StreamData [1]), cors = True\<rparr> \<and>
   is_playing (fst (client_step (\<lambda>r s. (\<lparr>status = 200, rbody = BStream (StreamData [1]), cors = True\<rparr>, s))
     (Media EndedEv) (client_step (\<lambda>r s. (\<lparr>status = 200, rbody = BStream (StreamData [1]), cors = True\<rparr>, s))
       (ClickTrack 0) (init_player\<lparr>playlist := [\<lparr>row_id = 1, title = None, path = Some ''/music/a'',
                                                position = Some 1\<rparr>]\<rparr>, ()))))"
proof -
  let ?h = "\<lambda>r s. (\<lparr>status = 200, rbody = BStream (StreamData [1]), cors = True\<rparr>, s)"
  let ?p = "init_player\<lparr>playlist := [\<lparr>row_id = 1, title = None, path = Some ''/music/a'', position = Some 1\<rparr>]\<rparr>"
  have h1: "0 < length (playlist ?p)" by simp
  have h2: "?h (track_request (playlist ?p ! 0)) () = (\<lparr>status = 200, rbody = BStream (StreamData [1]), cors = True\<rparr>, ())"
    by simp
  have h3: "axios_ok \<lparr>status = 200, rbody = BStream (StreamData [1]), cors = True\<rparr>" by (simp add: axios_ok_def)
  show ?thesis
    using ended_keeps_playing [where h = "\<lambda>r s. (\<lparr>status = 200, rbody = BStream (StreamData [1]),
        cors = True\<rparr>, s)", OF h1 h2 h3] h1 h3 by simp
qed

end
