(* ===== verification/Spec2Isabelle.thy ===== *)
theory Spec2Isabelle
  imports Worker Concurrency Client
begin

text \<open>
  Verification development of the playlist service: the Express server
  \<open>src/server.js\<close>, the Cloudflare worker \<open>src/worker.js\<close> (an alternative host of
  the same HTTP API) and the browser player \<open>src/client/src/App.js\<close>. The two hosts
  keep the playlist in two stores: a relational table \<open>playlist(id, title, path,
  position)\<close> and a WebDAV share holding the audio files. The client lists the
  table, uploads files and streams them back through the host.

  \<^bold>\<open>Theories.\<close>
  \<^item> \<open>Prelude\<close>: byte and path types, the collection \<open>store_simps\<close>, and list lemmas
    (appending a greatest element to a \<open>sort_key\<close>, a filter on a unique key).
  \<^item> \<open>MetaStore\<close>: the table as a record of rows and the auto-increment counter.
    \<open>select_ordered\<close>, \<open>max_position\<close>, \<open>insert_row\<close> and \<open>select_by_id\<close> are the
    four SQL statements both hosts send. SQL's \<open>NULL\<close> is \<open>None\<close>, ordered first
    as MySQL orders it. The invariant is \<open>meta_wf\<close>.
  \<^item> \<open>BlobStore\<close>: the share as a map from paths to contents, with
    \<open>put_file_contents\<close> and \<open>create_read_stream\<close>.
  \<^item> \<open>Url\<close>: what happens to a track URL on the way. \<open>url_pathname\<close> is the
    browser's URL parser: it cuts the path at \<open>?\<close> or \<open>#\<close> and percent-encodes.
    \<open>percent_decode\<close> is \<open>decodeURIComponent\<close>, which Express applies to a route
    parameter.
  \<^item> \<open>Http\<close>: requests, bodies, responses and the backend. The set \<open>F\<close> of store calls
    that fail in a request makes every \<open>catch\<close> a branch. It also holds
    \<open>next_position\<close>, the shared \<open>(maxPos || 0) + 1\<close>.
  \<^item> \<open>Server\<close>: one function per Express route (\<open>get_playlist\<close>, \<open>post_playlist\<close>,
    \<open>upload\<close>/\<open>upload_file\<close>, \<open>track\<close>). \<open>server_handle\<close> is the dispatch, with
    Express's path matching (\<open>route_match\<close>, \<open>track_param\<close>), the CORS preflight,
    the JSON parser's 400 and the final 404. \<open>server_run\<close> runs a request
    sequence.
  \<^item> \<open>Worker\<close>: the worker's routes and its exact-path dispatch \<open>worker_handle\<close>. It
    differs from Express in three ways: D1 refuses \<open>undefined\<close>, there is no size
    limit, and the 404 has no CORS headers.
  \<^item> \<open>Concurrency\<close>: the await points of an upload as the program counter \<open>pc\<close>
    (write blob, read max, insert, read back). \<open>exec_pc\<close> is one store call and
    \<open>act\<close> is one scheduling step. \<open>reach\<close> is the inductive set of reachable
    states, under any interleaving and any failures.
  \<^item> \<open>Client\<close>: the React state as \<open>player\<close> and the \<open>Audio\<close> element as \<open>audio_el\<close>.
    Each handler is a function over a host of type \<open>'s host\<close>. Here that host
    is \<open>server_handle F\<close> or \<open>worker_handle F\<close>. The page's events (\<open>ui_event\<close>,
    with the element's events in \<open>media_event\<close>) are dispatched by
    \<open>client_step\<close>. \<open>client_reach\<close> is the inductive set of pages reachable by
    any event sequence.
  \<^item> This theory: the two hosts compared, and the client run against each host.

  \<^bold>\<open>Properties.\<close>
  \<^item> C1--C8 (\<open>Server\<close>): the upload route on every branch, covering success,
    missing file, orphan blob, failed read-back and too-large file. They also show
    that the listing stays sorted after any run and that the track URL the client
    builds gets a 404.
  \<^item> C9--C14 (this theory): the hosts give the same upload. The worker streams an
    uploaded file back. The hosts diverge on large files and absent fields, and
    only the server adds CORS to its 404. A missing track gives 200 and a failing
    stream.
  \<^item> C15--C20 (\<open>Concurrency\<close>): invariants proved by rule induction over
    \<open>reach\<close>.
    \<^item> Every row an upload creates has its file.
    \<^item> Upload positions stay gapless.
    \<^item> A success response names a stored row.
    \<^item> The spec's duplicate-position race is reachable, as is a row without a file
      through a direct insert.
    \<^item> The thread model refines \<open>upload_file\<close>.
  \<^item> C21--C26 (\<open>Client\<close>): \<open>formatTime\<close> round-trips whole seconds. The play button
    keeps \<open>isPlaying\<close> in step when a source is loaded, and breaks it before one
    is. The skip buttons do nothing on an empty list and otherwise jump to the
    ends. An upload always clears \<open>uploading\<close>.
  \<^item> C27--C29 (this theory): end to end, an upload from the client is listed
    last. Through the worker, "next" then plays its bytes, unless the URL parser
    changes the name. Through Express it plays nothing.
  \<^item> C30--C31 (\<open>Server\<close>): Express serves the track when the stored path is sent
    as one encoded segment. A malformed escape gets the router's 400.
  \<^item> C32--C33 (\<open>Concurrency\<close>): every run or fail step lowers the store calls still
    pending (termination), and scheduling each thread to its end answers every
    request (liveness).
  \<^item> C34 (this theory): the response types of the API table hold on both hosts.
  \<^item> C35--C36 (\<open>Client\<close>): by rule induction over \<open>client_reach\<close>, the page's
    invariant holds and both time displays are well formed. A track that ends
    leaves \<open>isPlaying\<close> true.

  \<^bold>\<open>Bounds and fuel.\<close> The model has no loop that can fail to end. The one fuel,
  \<open>run_pc 4\<close>, is exact: an upload thread makes four store calls and then is
  \<open>Done\<close>. Reachability is an inductive relation, so no run length is bounded.
  Ids and positions are unbounded integers. The multer limit is the exact
  constant \<open>200 * 1024 * 1024\<close>.

  \<^bold>\<open>Not modelled.\<close>
  \<^item> Dot-segment normalisation of URLs. It only arises for file names that
    contain a backslash.
  \<^item> UTF-8 validity in \<open>decodeURIComponent\<close>.
  \<^item> Whether \<open>^\<close> is encoded in a path. The model follows the current URL
    standard, and browsers differ.
  \<^item> HEAD requests and JSON fields of non-string types.
  \<^item> SQL column types and their ranges, which become store failures in \<open>F\<close>.
  \<^item> WebDAV path normalisation.
  \<^item> A Node process crash on an unhandled stream error.
  \<^item> Media decoding and the timing of audio events. There is no \<open>NaN\<close> or
    \<open>Infinity\<close> duration.
  \<^item> The JSX rendering.
  \<^item> Environment configuration.
\<close>

section \<open>The two hosts\<close>

text \<open>With a well-formed table the read-back after an insert always finds the row, so
  the hosts' different spellings of an empty result (\<open>undefined\<close>, \<open>null\<close>) never
  show.\<close>

lemma worker_insert_select_eq:
  assumes "meta_wf (meta st)"
  shows "worker_insert_select F t p q st = insert_and_select F t p q st"
  using select_by_id_insert_row [OF assms, of t p q]
  by (simp add: worker_insert_select_def insert_and_select_def case_prod_unfold Let_def
      first_or_null_def first_row_def cors_resp_def express_resp_def worker_error_def store_error_def)

lemma worker_upload_file_eq:
  assumes "meta_wf (meta st)"
  shows "worker_upload_file F name content st = upload_file F name content st"
proof -
  have "meta_wf (meta (st\<lparr>blobs := b\<rparr>))" for b using assms by simp
  then show ?thesis
    by (simp add: worker_upload_file_def upload_file_def Let_def worker_insert_select_eq
        worker_error_def store_error_def cors_resp_def express_resp_def)
qed



text \<open>
  C10. Round trip on the worker: after a successful upload of \<open>name\<close> with
  \<open>content\<close>, requesting \<open>/api/track/\<close> followed by the stored path streams
  exactly \<open>content\<close>.
\<close>

theorem worker_upload_track_roundtrip:
  assumes "meta_wf (meta st)" and "F \<inter> {DavPut, QueryMax, QueryInsert, QuerySelectId} = {}"
  shows "fst (worker_handle G \<lparr>req_method = GET, url_path = ''/api/track/'' @ ''/music/'' @ name,
                              body = NoBody\<rparr>
             (snd (worker_handle F \<lparr>req_method = POST, url_path = ''/api/upload'',
                                    body = FormBody (FilePart name content)\<rparr> st))) =
         cors_resp 200 (BStream (StreamData content))"
proof -
  let ?up = "\<lparr>req_method = POST, url_path = ''/api/upload'', body = FormBody (FilePart name content)\<rparr>"
  have "blobs (snd (worker_handle F ?up st)) = put_file_contents (''/music/'' @ name) content (blobs st)"
    using assms by (simp add: worker_handle_upload_route worker_upload_def worker_upload_file_ok
        music_dir_def)
  then show ?thesis
    by (simp only: worker_handle_track_route fst_conv) (simp add: store_simps)
qed

theorem worker_upload_track_roundtrip_witness:
  "meta_wf (meta empty_backend) \<and> {} \<inter> {DavPut, QueryMax, QueryInsert, QuerySelectId} = {} \<and>
   fst (worker_handle {} \<lparr>req_method = GET, url_path = ''/api/track//music/s.mp3'', body = NoBody\<rparr>
          (snd (worker_handle {} \<lparr>req_method = POST, url_path = ''/api/upload'',
                                 body = FormBody (FilePart ''s.mp3'' [5, 6])\<rparr> empty_backend))) =
   cors_resp 200 (BStream (StreamData [5, 6]))"
proof -
  have h1: "meta_wf (meta empty_backend)" by (simp add: empty_backend_def)
  have h2: "({} :: faults) \<inter> {DavPut, QueryMax, QueryInsert, QuerySelectId} = {}" by simp
  show ?thesis
    using worker_upload_track_roundtrip [OF h1 h2, of "{}" "''s.mp3''" "[5, 6]"] h1 by simp
qed



text \<open>
  C12. The hosts differ on \<open>POST /api/playlist\<close> with a field left out: the
  Express server stores the row with \<open>NULL\<close> in that column, while the worker's
  D1 binding throws on \<open>undefined\<close> and the request fails with 500 before any write.
\<close>

theorem hosts_diverge_on_absent_field:
  assumes "meta_wf (meta st)"
  shows "server_handle {} \<lparr>req_method = POST, url_path = ''/api/playlist'',
            body = JsonBody \<lparr>b_title = JVal t, b_path = JVal p, b_position = Absent\<rparr>\<rparr> st =
           (express_resp 200 (BJson (JRow \<lparr>row_id = next_id (meta st), title = Some t,
                                        path = Some p, position = None\<rparr>)),
            st\<lparr>meta := snd (insert_row (Some t) (Some p) None (meta st))\<rparr>) \<and>
         worker_handle {} \<lparr>req_method = POST, url_path = ''/api/playlist'',
            body = JsonBody \<lparr>b_title = JVal t, b_path = JVal p, b_position = Absent\<rparr>\<rparr> st =
           (worker_error, st)"
  using assms
  by (simp add: server_handle_post_playlist_route post_playlist_def insert_and_select_ok
      worker_handle_def worker_post_playlist_def)

theorem hosts_diverge_on_absent_field_witness:
  "meta_wf (meta empty_backend) \<and>
   worker_handle {} \<lparr>req_method = POST, url_path = ''/api/playlist'',
      body = JsonBody \<lparr>b_title = JVal ''t'', b_path = JVal ''/music/t'', b_position = Absent\<rparr>\<rparr>
      empty_backend = (worker_error, empty_backend)"
proof -
  have h: "meta_wf (meta empty_backend)" by (simp add: empty_backend_def)
  show ?thesis using hosts_diverge_on_absent_field [OF h] h by blast
qed






section \<open>The client against the two hosts\<close>

lemma axios_ok_cors_resp_json [simp]: "axios_ok (cors_resp 200 (BJson x))"
  by (simp add: axios_ok_def cors_resp_def)

lemma axios_ok_express_resp_json [simp]: "axios_ok (express_resp 200 (BJson x))"
  by (simp add: axios_ok_def express_resp_def)

lemma track_request_music:
  "track_request \<lparr>row_id = i, title = t, path = Some (''/music/'' @ n), position = q\<rparr> =
     \<lparr>req_method = GET, url_path = ''/api/track/'' @ ''/music/'' @ url_pathname n, body = NoBody\<rparr>"
proof -
  have "list_all url_plain ''/api/track//music/''"
    by (simp add: url_plain_def path_encode_set_def tab_or_newline_def)
  then have "url_pathname (''/api/track//music/'' @ n) = ''/api/track//music/'' @ url_pathname n"
    by (rule url_pathname_plain_append)
  then show ?thesis by (simp add: track_request_def js_template_def)
qed

lemma worker_track_music:
  "worker_handle F (track_request \<lparr>row_id = i, title = t, path = Some (''/music/'' @ n), position = q\<rparr>) st =
     (cors_resp 200 (BStream (create_read_stream (blobs st) (''/music/'' @ url_pathname n))), st)"
  by (simp only: track_request_music worker_handle_track_route)

text \<open>A client upload of \<open>n\<close> through either host, followed by the refresh it
  starts: the listing gains the new row at its end and the stores hold the file
  and the row.\<close>

lemma worker_upload_refresh:
  assumes "meta_wf (meta st)"
  shows "handle_file_upload (worker_handle {}) (Some (n, c)) (p, st) =
    (p\<lparr>uploading := False, playlist := select_ordered (meta st) @
        [\<lparr>row_id = next_id (meta st), title = Some n, path = Some (''/music/'' @ n),
          position = Some (next_position (max_position (rows (meta st))))\<rparr>]\<rparr>,
     st\<lparr>blobs := put_file_contents (''/music/'' @ n) c (blobs st),
       meta := snd (insert_row (Some n) (Some (''/music/'' @ n))
                 (Some (next_position (max_position (rows (meta st))))) (meta st))\<rparr>)"
  (is "_ = (?p1, ?st1)")
proof -
  let ?r = "\<lparr>row_id = next_id (meta st), title = Some n, path = Some (''/music/'' @ n),
             position = Some (next_position (max_position (rows (meta st))))\<rparr>"
  have up: "worker_handle {} (upload_request n c) st = (cors_resp 200 (BJson (JRow ?r)), ?st1)"
    using worker_upload_file_ok [of "{}" st n c] assms
    by (simp add: upload_request_def worker_handle_upload_route worker_upload_def music_dir_def)
  have get: "worker_handle {} \<lparr>req_method = GET, url_path = ''/api/playlist'', body = NoBody\<rparr> ?st1 =
      (cors_resp 200 (BJson (JRows (select_ordered (meta st) @ [?r]))), ?st1)"
    using select_ordered_insert_next [of "Some n" "Some (''/music/'' @ n)" "meta st"]
    by (simp add: worker_handle_def worker_get_playlist_def)
  show ?thesis
    by (rule handle_file_upload_refresh [OF up _ get]) (simp_all add: axios_ok_def cors_resp_def)
qed

lemma server_upload_refresh:
  assumes "meta_wf (meta st)" and "length c \<le> upload_limit"
  shows "handle_file_upload (server_handle {}) (Some (n, c)) (p, st) =
    (p\<lparr>uploading := False, playlist := select_ordered (meta st) @
        [\<lparr>row_id = next_id (meta st), title = Some n, path = Some (''/music/'' @ n),
          position = Some (next_position (max_position (rows (meta st))))\<rparr>]\<rparr>,
     st\<lparr>blobs := put_file_contents (''/music/'' @ n) c (blobs st),
       meta := snd (insert_row (Some n) (Some (''/music/'' @ n))
                 (Some (next_position (max_position (rows (meta st))))) (meta st))\<rparr>)"
  (is "_ = (?p1, ?st1)")
proof -
  let ?r = "\<lparr>row_id = next_id (meta st), title = Some n, path = Some (''/music/'' @ n),
             position = Some (next_position (max_position (rows (meta st))))\<rparr>"
  have up: "server_handle {} (upload_request n c) st = (express_resp 200 (BJson (JRow ?r)), ?st1)"
    using upload_file_ok [of "{}" st n c] assms
    by (simp add: upload_request_def server_handle_upload_route form_file_def upload_def music_dir_def)
  have get: "server_handle {} \<lparr>req_method = GET, url_path = ''/api/playlist'', body = NoBody\<rparr> ?st1 =
      (express_resp 200 (BJson (JRows (select_ordered (meta st) @ [?r]))), ?st1)"
    using select_ordered_insert_next [of "Some n" "Some (''/music/'' @ n)" "meta st"]
    by (simp add: server_handle_get_playlist_route get_playlist_def)
  show ?thesis
    by (rule handle_file_upload_refresh [OF up _ get]) (simp_all add: axios_ok_def express_resp_def)
qed

text \<open>
  C27. End to end through the worker: the client uploads a file whose name the
  URL parser leaves alone, the refreshed listing ends with the new track, and
  the "next" button then plays exactly the uploaded bytes.
\<close>

theorem client_worker_upload_then_next_plays:
  assumes "meta_wf (meta st)" and "list_all url_plain n"
  shows "let r = \<lparr>row_id = next_id (meta st), title = Some n, path = Some (''/music/'' @ n),
                  position = Some (next_position (max_position (rows (meta st))))\<rparr>;
             ps1 = handle_file_upload (worker_handle {}) (Some (n, c)) (p, st);
             ps2 = skip_next (worker_handle {}) ps1
         in playlist (fst ps1) = select_ordered (meta st) @ [r] \<and> \<not> uploading (fst ps1) \<and>
            current_track (fst ps2) = Some r \<and> is_playing (fst ps2) \<and>
            a_src (audio (fst ps2)) = Some c \<and> \<not> a_paused (audio (fst ps2))"
proof -
  let ?np = "next_position (max_position (rows (meta st)))"
  let ?r = "\<lparr>row_id = next_id (meta st), title = Some n, path = Some (''/music/'' @ n),
             position = Some ?np\<rparr>"
  let ?m1 = "snd (insert_row (Some n) (Some (''/music/'' @ n)) (Some ?np) (meta st))"
  let ?st1 = "st\<lparr>blobs := put_file_contents (''/music/'' @ n) c (blobs st), meta := ?m1\<rparr>"
  let ?p1 = "p\<lparr>uploading := False, playlist := select_ordered (meta st) @ [?r]\<rparr>"
  have ps1: "handle_file_upload (worker_handle {}) (Some (n, c)) (p, st) = (?p1, ?st1)"
    using assms(1) by (rule worker_upload_refresh)
  have tr: "worker_handle {} (track_request ?r) ?st1 = (cors_resp 200 (BStream (StreamData c)), ?st1)"
    by (simp only: worker_track_music url_pathname_plain [OF assms(2)]) (simp add: store_simps)
  have "skip_next (worker_handle {}) (?p1, ?st1) = play_track (worker_handle {}) (Some ?r) (?p1, ?st1)"
    by (rule skip_next_last) simp
  also have "\<dots> = (?p1\<lparr>audio := (audio ?p1)\<lparr>a_src := Some c, a_paused := False, a_time := 0\<rparr>,
       current_track := Some ?r, is_playing := True\<rparr>, ?st1)"
    by (rule play_track_stream [where h = "worker_handle {}", OF tr]) (simp_all add: axios_ok_def cors_resp_def)
  finally show ?thesis using ps1 by (simp add: Let_def)
qed

theorem client_worker_upload_then_next_plays_witness:
  "meta_wf (meta empty_backend) \<and> list_all url_plain ''a.mp3'' \<and>
   (let r = \<lparr>row_id = next_id (meta empty_backend), title = Some ''a.mp3'',
             path = Some (''/music/'' @ ''a.mp3''),
             position = Some (next_position (max_position (rows (meta empty_backend))))\<rparr>;
        ps1 = handle_file_upload (worker_handle {}) (Some (''a.mp3'', [5])) (init_player, empty_backend);
        ps2 = skip_next (worker_handle {}) ps1
    in playlist (fst ps1) = select_ordered (meta empty_backend) @ [r] \<and> \<not> uploading (fst ps1) \<and>
       current_track (fst ps2) = Some r \<and> is_playing (fst ps2) \<and>
       a_src (audio (fst ps2)) = Some [5] \<and> \<not> a_paused (audio (fst ps2)))"
proof -
  have h1: "meta_wf (meta empty_backend)" by (simp add: empty_backend_def)
  have h2: "list_all url_plain ''a.mp3''" by (simp add: url_plain_def path_encode_set_def tab_or_newline_def)
  show ?thesis using client_worker_upload_then_next_plays [OF h1 h2, of "[5]" init_player] h1 h2
    by blast
qed

text \<open>
  C28. End to end through the Express server: the upload succeeds and the
  refreshed listing ends with the new track, but "next" then changes nothing,
  because the URL the client builds for \<open>/music/<name>\<close> gets Express's 404.
\<close>

theorem client_server_upload_listed_not_playable:
  assumes "meta_wf (meta st)" and "length c \<le> upload_limit"
  shows "let r = \<lparr>row_id = next_id (meta st), title = Some n, path = Some (''/music/'' @ n),
                  position = Some (next_position (max_position (rows (meta st))))\<rparr>;
             ps1 = handle_file_upload (server_handle {}) (Some (n, c)) (p, st)
         in playlist (fst ps1) = select_ordered (meta st) @ [r] \<and> \<not> uploading (fst ps1) \<and>
            skip_next (server_handle {}) ps1 = ps1"
proof -
  let ?np = "next_position (max_position (rows (meta st)))"
  let ?r = "\<lparr>row_id = next_id (meta st), title = Some n, path = Some (''/music/'' @ n),
             position = Some ?np\<rparr>"
  let ?m1 = "snd (insert_row (Some n) (Some (''/music/'' @ n)) (Some ?np) (meta st))"
  let ?st1 = "st\<lparr>blobs := put_file_contents (''/music/'' @ n) c (blobs st), meta := ?m1\<rparr>"
  let ?p1 = "p\<lparr>uploading := False, playlist := select_ordered (meta st) @ [?r]\<rparr>"
  have ps1: "handle_file_upload (server_handle {}) (Some (n, c)) (p, st) = (?p1, ?st1)"
    using assms by (rule server_upload_refresh)
  have url: "''/api/track/'' @ ''/music/'' @ url_pathname n =
      ''/api/track/'' @ CHR ''/'' # ''music/'' @ url_pathname n" by simp
  have tr: "server_handle {} (track_request ?r) ?st1 = (not_found, ?st1)"
    by (simp only: track_request_music url server_handle_track_slash)
  have "skip_next (server_handle {}) (?p1, ?st1) = play_track (server_handle {}) (Some ?r) (?p1, ?st1)"
    by (rule skip_next_last) simp
  also have "\<dots> = (?p1, ?st1)"
    by (rule play_track_fail [where h = "server_handle {}", OF tr])
      (simp add: axios_ok_def not_found_def express_resp_def)
  finally show ?thesis using ps1 by (simp add: Let_def)
qed

theorem client_server_upload_listed_not_playable_witness:
  "meta_wf (meta empty_backend) \<and> length [5 :: byte] \<le> upload_limit \<and>
   (let r = \<lparr>row_id = next_id (meta empty_backend), title = Some ''a.mp3'',
             path = Some (''/music/'' @ ''a.mp3''),
             position = Some (next_position (max_position (rows (meta empty_backend))))\<rparr>;
        ps1 = handle_file_upload (server_handle {}) (Some (''a.mp3'', [5])) (init_player, empty_backend)
    in playlist (fst ps1) = select_ordered (meta empty_backend) @ [r] \<and> \<not> uploading (fst ps1) \<and>
       skip_next (server_handle {}) ps1 = ps1)"
proof -
  have h1: "meta_wf (meta empty_backend)" by (simp add: empty_backend_def)
  have h2: "length [5 :: byte] \<le> upload_limit" by (simp add: upload_limit_def)
  show ?thesis
    using client_server_upload_listed_not_playable [OF h1 h2, of "''a.mp3''" init_player] h1 h2
    by blast
qed

text \<open>
  C29. The client does not encode the stored path and the worker does not
  decode the pathname: a track whose name the URL parser changes (a space, a
  non-ASCII letter, \<open>#\<close>, \<open>?\<close>) is uploaded and listed through the worker, but
  "next" then changes nothing, because the worker opens the encoded path.
\<close>

theorem client_worker_encoded_name_not_playable:
  assumes "meta_wf (meta st)" and "url_pathname n \<noteq> n"
    and "''/music/'' @ url_pathname n \<notin> dom (blobs st)"
  shows "let ps1 = handle_file_upload (worker_handle {}) (Some (n, c)) (p, st)
         in skip_next (worker_handle {}) ps1 = ps1"
proof -
  let ?np = "next_position (max_position (rows (meta st)))"
  let ?r = "\<lparr>row_id = next_id (meta st), title = Some n, path = Some (''/music/'' @ n),
             position = Some ?np\<rparr>"
  let ?m1 = "snd (insert_row (Some n) (Some (''/music/'' @ n)) (Some ?np) (meta st))"
  let ?st1 = "st\<lparr>blobs := put_file_contents (''/music/'' @ n) c (blobs st), meta := ?m1\<rparr>"
  let ?p1 = "p\<lparr>uploading := False, playlist := select_ordered (meta st) @ [?r]\<rparr>"
  have ps1: "handle_file_upload (worker_handle {}) (Some (n, c)) (p, st) = (?p1, ?st1)"
    using assms(1) by (rule worker_upload_refresh)
  have "''/music/'' @ url_pathname n \<notin> dom (blobs ?st1)"
    using assms(2,3) by (simp add: store_simps)
  then have tr: "worker_handle {} (track_request ?r) ?st1 = (cors_resp 200 (BStream StreamError), ?st1)"
    by (simp only: worker_track_music) (simp add: create_read_stream_error_iff cors_resp_def)
  have "skip_next (worker_handle {}) (?p1, ?st1) = play_track (worker_handle {}) (Some ?r) (?p1, ?st1)"
    by (rule skip_next_last) simp
  also have "\<dots> = (?p1, ?st1)"
    by (rule play_track_fail [where h = "worker_handle {}", OF tr]) (simp add: axios_ok_def cors_resp_def)
  finally show ?thesis using ps1 by (simp add: Let_def)
qed

theorem client_worker_encoded_name_not_playable_witness:
  "meta_wf (meta empty_backend) \<and> url_pathname ''a b.mp3'' \<noteq> ''a b.mp3'' \<and>
   ''/music/'' @ url_pathname ''a b.mp3'' \<notin> dom (blobs empty_backend) \<and>
   (let ps1 = handle_file_upload (worker_handle {}) (Some (''a b.mp3'', [5])) (init_player, empty_backend)
    in skip_next (worker_handle {}) ps1 = ps1)"
proof -
  have h1: "meta_wf (meta empty_backend)" by (simp add: empty_backend_def)
  have h2: "url_pathname ''a b.mp3'' \<noteq> ''a b.mp3''"
    by (simp add: url_pathname_def percent_encode_char_def path_encode_set_def hex_digit_def
        tab_or_newline_def c0_or_space_def char_of_def bit_0)
  have h3: "''/music/'' @ url_pathname ''a b.mp3'' \<notin> dom (blobs empty_backend)"
    by (simp add: empty_backend_def)
  show ?thesis
    using client_worker_encoded_name_not_playable [OF h1 h2 h3, of "[5]" init_player] h1 h2 h3
    by blast
qed


section \<open>Response types\<close>

text \<open>
  C34. The response types of the API table (spec section 6) hold on both hosts
  whenever the table is well formed: a 200 to \<open>GET /api/playlist\<close> is a JSON
  array of rows, and a 200 to \<open>POST /api/playlist\<close> or \<open>POST /api/upload\<close>, whatever
  the body and whichever store calls fail, is the one row that was created.
\<close>

theorem api_response_types:
  assumes "meta_wf (meta st)" and "h = server_handle F \<or> h = worker_handle F"
  shows "(status (fst (h \<lparr>req_method = GET, url_path = ''/api/playlist'', body = NoBody\<rparr> st)) = 200 \<longrightarrow>
          (\<exists>rs. rbody (fst (h \<lparr>req_method = GET, url_path = ''/api/playlist'', body = NoBody\<rparr> st)) =
                BJson (JRows rs))) \<and>
         (status (fst (h \<lparr>req_method = POST, url_path = ''/api/playlist'', body = bd\<rparr> st)) = 200 \<longrightarrow>
          (\<exists>r. rbody (fst (h \<lparr>req_method = POST, url_path = ''/api/playlist'', body = bd\<rparr> st)) =
                BJson (JRow r))) \<and>
         (status (fst (h \<lparr>req_method = POST, url_path = ''/api/upload'', body = bd\<rparr> st)) = 200 \<longrightarrow>
          (\<exists>r. rbody (fst (h \<lparr>req_method = POST, url_path = ''/api/upload'', body = bd\<rparr> st)) =
                BJson (JRow r)))"
  using assms(2)
proof
  assume h: "h = server_handle F"
  have g: "status (fst (h \<lparr>req_method = GET, url_path = ''/api/playlist'', body = NoBody\<rparr> st)) = 200 \<longrightarrow>
          (\<exists>rs. rbody (fst (h \<lparr>req_method = GET, url_path = ''/api/playlist'', body = NoBody\<rparr> st)) =
                BJson (JRows rs))"
    by (simp add: h server_handle_get_playlist_route get_playlist_def store_error_def express_resp_def)
  have p: "status (fst (h \<lparr>req_method = POST, url_path = ''/api/playlist'', body = bd\<rparr> st)) = 200 \<longrightarrow>
          (\<exists>r. rbody (fst (h \<lparr>req_method = POST, url_path = ''/api/playlist'', body = bd\<rparr> st)) =
                BJson (JRow r))"
    using insert_and_select_typed [OF assms(1)]
    by (simp add: h server_handle_post_playlist_any post_playlist_def express_resp_def)
  have u: "status (fst (h \<lparr>req_method = POST, url_path = ''/api/upload'', body = bd\<rparr> st)) = 200 \<longrightarrow>
          (\<exists>r. rbody (fst (h \<lparr>req_method = POST, url_path = ''/api/upload'', body = bd\<rparr> st)) =
                BJson (JRow r))"
    using upload_typed [OF assms(1)]
    by (simp add: h server_handle_upload_route express_resp_def)
  from g p u show ?thesis by blast
next
  assume h: "h = worker_handle F"
  have g: "status (fst (h \<lparr>req_method = GET, url_path = ''/api/playlist'', body = NoBody\<rparr> st)) = 200 \<longrightarrow>
          (\<exists>rs. rbody (fst (h \<lparr>req_method = GET, url_path = ''/api/playlist'', body = NoBody\<rparr> st)) =
                BJson (JRows rs))"
    by (simp add: h worker_handle_def worker_get_playlist_def worker_error_def cors_resp_def)
  have p: "status (fst (h \<lparr>req_method = POST, url_path = ''/api/playlist'', body = bd\<rparr> st)) = 200 \<longrightarrow>
          (\<exists>r. rbody (fst (h \<lparr>req_method = POST, url_path = ''/api/playlist'', body = bd\<rparr> st)) =
                BJson (JRow r))"
    using insert_and_select_typed [OF assms(1)]
    by (auto simp: h worker_handle_def worker_post_playlist_def worker_insert_select_eq [OF assms(1)]
        worker_error_def cors_resp_def split: req_body.splits option.splits)
  have u: "status (fst (h \<lparr>req_method = POST, url_path = ''/api/upload'', body = bd\<rparr> st)) = 200 \<longrightarrow>
          (\<exists>r. rbody (fst (h \<lparr>req_method = POST, url_path = ''/api/upload'', body = bd\<rparr> st)) =
                BJson (JRow r))"
    using upload_file_typed [OF assms(1)]
    by (auto simp: h worker_handle_upload_route worker_upload_def worker_upload_file_eq [OF assms(1)]
        worker_error_def cors_resp_def split: req_body.splits form_field.splits)
  from g p u show ?thesis by blast
qed

theorem api_response_types_witness:
  "meta_wf (meta empty_backend) \<and> (worker_handle {} = server_handle {} \<or> worker_handle {} = worker_handle {}) \<and>
   status (fst (worker_handle {} \<lparr>req_method = POST, url_path = ''/api/upload'',
                                  body = FormBody (FilePart ''a'' [1])\<rparr> empty_backend)) = 200 \<and>
   (\<exists>r. rbody (fst (worker_handle {} \<lparr>req_method = POST, url_path = ''/api/upload'',
                                     body = FormBody (FilePart ''a'' [1])\<rparr> empty_backend)) =
         BJson (JRow r))"
proof -
  have h1: "meta_wf (meta empty_backend)" by (simp add: empty_backend_def)
  have h2: "worker_handle {} = server_handle {} \<or> worker_handle {} = worker_handle {}" by simp
  have h3: "status (fst (worker_handle {} \<lparr>req_method = POST, url_path = ''/api/upload'',
                                          body = FormBody (FilePart ''a'' [1])\<rparr> empty_backend)) = 200"
    using worker_upload_file_ok [of "{}" empty_backend "''a''" "[1]"] h1
    by (simp add: worker_handle_upload_route worker_upload_def cors_resp_def)
  show ?thesis
    using api_response_types [OF h1 h2, of "FormBody (FilePart ''a'' [1])"] h1 h2 h3 by blast
qed

end
